theory Spec2Isabelle
  imports Main
begin

section \<open>The mocha-remote client (MochaRemoteClient)\<close>

text \<open>
  A shallow embedding of the class \<open>MochaRemoteClient\<close>. The client is
  single-threaded and event driven: every method and every event handler runs to
  completion, so each one is a function from the world before the call to the
  outcome and the world after it. The world is the client object together with
  the collaborators it talks to (WebSocket objects, the timer table, Mocha
  instances, runners) and a trace of every call made on a collaborator and every
  callback of the configuration that was invoked, in program order. The
  \<open>debug\<close> log lines of the source have no effect on the client and are left out.
\<close>

subsection \<open>JavaScript values carried by events\<close>

text \<open>
  An object is its list of own string-keyed properties, each with its
  \<open>enumerable\<close> attribute and its value, and the fact whether it is an
  \<open>instanceof Error\<close>. The keys of a JavaScript object are distinct; reading a
  key takes the first entry, writing a key replaces the entry in place.
\<close>

datatype objkind = PlainObject | ErrorObject

datatype jsval =
    JUndefined
  | JNull
  | JBool bool
  | JNumber int
  | JString string
  | JArray "jsval list"
  | JObject objkind "(string \<times> bool \<times> jsval) list"

type_synonym props = "(string \<times> bool \<times> jsval) list"

fun instanceof_Error :: "jsval \<Rightarrow> bool" where
  "instanceof_Error (JObject ErrorObject ps) = True"
| "instanceof_Error v = False"

fun own_props :: "jsval \<Rightarrow> props" where
  "own_props (JObject k ps) = ps"
| "own_props v = []"

definition getOwnPropertyNames :: "jsval \<Rightarrow> string list" where
  "getOwnPropertyNames v = map fst (own_props v)"

text \<open>\<open>obj[key]\<close> on the own properties: \<open>undefined\<close> when there is none.\<close>

fun get_own :: "props \<Rightarrow> string \<Rightarrow> jsval" where
  "get_own [] key = JUndefined"
| "get_own ((k, e, v) # ps) key = (if key = k then v else get_own ps key)"

text \<open>\<open>result[key] = v\<close>: an existing property keeps its place and attribute, a
  new one is appended as an enumerable property.\<close>

fun put_own :: "string \<Rightarrow> jsval \<Rightarrow> props \<Rightarrow> props" where
  "put_own key v [] = [(key, True, v)]"
| "put_own key v ((k, e, v') # ps) =
     (if key = k then (k, e, v) # ps else (k, e, v') # put_own key v ps)"

text \<open>Reading a named property of any value, as \<open>data.eventName\<close> does: reading
  from \<open>null\<close> or \<open>undefined\<close> throws a TypeError, a primitive or an array has
  no such property.\<close>

datatype error = JsError string | JsTypeError string

fun get_property :: "jsval \<Rightarrow> string \<Rightarrow> error + jsval" where
  "get_property JUndefined key =
     Inl (JsTypeError (''Cannot read property '' @ key @ '' of undefined''))"
| "get_property JNull key =
     Inl (JsTypeError (''Cannot read property '' @ key @ '' of null''))"
| "get_property (JObject k ps) key = Inr (get_own ps key)"
| "get_property v key = Inr JUndefined"

subsection \<open>The argument-preparation step of the codec\<close>

definition prepareArgs :: "jsval list \<Rightarrow> jsval list" where
  "prepareArgs args =
     map (\<lambda>arg.
            if instanceof_Error arg then
              JObject PlainObject
                (fold (\<lambda>key result. put_own key (get_own (own_props arg) key) result)
                   (getOwnPropertyNames arg) [])
            else arg)
         args"

subsection \<open>Mocha instances\<close>

text \<open>
  A Mocha instance, as far as the client touches it: the function stored in
  \<open>run\<close> (Mocha's own or the guard), the one stored in \<open>originalRun\<close>, the
  function stored in \<open>reporter\<close>, and the reporter class stored in
  \<open>_reporter\<close>. Mocha is an external collaborator. What its own \<open>run\<close>
  emits on the runner before it returns belongs to the instance: Mocha emits
  \<open>start\<close> first, then \<open>end\<close> when the suite has no test to run and \<open>suite\<close>
  for the root suite otherwise; everything else comes later, from the event loop.
\<close>

datatype run_impl = NativeRun | GuardRun

datatype reporter_impl = NativeReporter | WarnReporter

datatype reporter_class = DefaultReporter | RemoteReporter

record mocha =
  m_options :: props
  m_run :: run_impl
  m_originalRun :: "run_impl option"
  m_reporter :: reporter_impl
  m_reporter_class :: reporter_class
  m_emits :: "(string \<times> jsval list) list"

text \<open>The Mocha instances and the next fresh reference: the part of the world a
  factory works on.\<close>

type_synonym mocha_heap = "(nat \<Rightarrow> mocha) \<times> nat"

text \<open>\<open>new Mocha(options)\<close>: no test has been added yet.\<close>

definition new_Mocha :: "props \<Rightarrow> mocha" where
  "new_Mocha opts =
     \<lparr> m_options = opts, m_run = NativeRun, m_originalRun = None,
       m_reporter = NativeReporter, m_reporter_class = DefaultReporter,
       m_emits = [(''start'', []), (''end'', [])] \<rparr>"

subsection \<open>Configuration\<close>

text \<open>
  The callbacks of the configuration are user code; their presence is what the
  client branches on, and an invocation is recorded in the trace. The factory
  \<open>createMocha\<close> is user code too: it is given the configuration and returns
  a Mocha instance, which it may construct; it works on the Mocha instances only.
\<close>

record config_data =
  autoConnect :: bool
  autoRetry :: bool
  retryDelay :: int
  url :: string
  id_cfg :: "string option"
  onConnected :: bool
  onDisconnected :: bool
  onInstrumented :: bool
  onRunning :: bool
  mochaOptions :: props

record config = config_data +
  createMocha :: "config_data \<Rightarrow> mocha_heap \<Rightarrow> nat \<times> mocha_heap"

record partial_config =
  p_autoConnect :: "bool option"
  p_autoRetry :: "bool option"
  p_retryDelay :: "int option"
  p_url :: "string option"
  p_id :: "string option"
  p_onConnected :: bool
  p_onDisconnected :: bool
  p_onInstrumented :: bool
  p_onRunning :: bool
  p_mochaOptions :: "props option"
  p_createMocha :: "(config_data \<Rightarrow> mocha_heap \<Rightarrow> nat \<times> mocha_heap) option"

text \<open>The factory of \<open>DEFAULT_CONFIG\<close>: \<open>config => new Mocha(config.mochaOptions)\<close>.\<close>

definition default_createMocha :: "config_data \<Rightarrow> mocha_heap \<Rightarrow> nat \<times> mocha_heap" where
  "default_createMocha cfg h =
     (snd h, ((fst h)(snd h := new_Mocha (mochaOptions cfg)), Suc (snd h)))"

definition DEFAULT_CONFIG :: config where
  "DEFAULT_CONFIG =
     \<lparr> autoConnect = True, autoRetry = True, retryDelay = 500,
       url = ''ws://localhost:8090'', id_cfg = Some ''default'',
       onConnected = False, onDisconnected = False, onInstrumented = False,
       onRunning = False, mochaOptions = [], createMocha = default_createMocha \<rparr>"

text \<open>\<open>{ ...DEFAULT_CONFIG, ...config }\<close>: a key of the argument wins over the
  default.\<close>

definition merge_config :: "config \<Rightarrow> partial_config \<Rightarrow> config" where
  "merge_config d p =
     \<lparr> autoConnect = (case p_autoConnect p of Some b \<Rightarrow> b | None \<Rightarrow> autoConnect d),
       autoRetry = (case p_autoRetry p of Some b \<Rightarrow> b | None \<Rightarrow> autoRetry d),
       retryDelay = (case p_retryDelay p of Some n \<Rightarrow> n | None \<Rightarrow> retryDelay d),
       url = (case p_url p of Some u \<Rightarrow> u | None \<Rightarrow> url d),
       id_cfg = (case p_id p of Some i \<Rightarrow> Some i | None \<Rightarrow> id_cfg d),
       onConnected = (p_onConnected p \<or> onConnected d),
       onDisconnected = (p_onDisconnected p \<or> onDisconnected d),
       onInstrumented = (p_onInstrumented p \<or> onInstrumented d),
       onRunning = (p_onRunning p \<or> onRunning d),
       mochaOptions = (case p_mochaOptions p of Some m \<Rightarrow> m | None \<Rightarrow> mochaOptions d),
       createMocha = (case p_createMocha p of Some f \<Rightarrow> f | None \<Rightarrow> createMocha d) \<rparr>"

subsection \<open>Collaborators: sockets and timers\<close>

datatype readyState = CONNECTING | OPEN | CLOSING | CLOSED

text \<open>\<open>WebSocket\<close> is the browser's or, in Node, that of the \<open>ws\<close> package
  (through \<open>isomorphic-ws\<close>). They differ in \<open>close()\<close> on a socket that is
  still connecting.\<close>

datatype transport = Browser | NodeWs

text \<open>The four listeners \<open>connect\<close> registers: the three handler properties of
  the client and the arrow function for \<open>open\<close>, which closes over the optional
  one-shot callback \<open>fn\<close> of that call.\<close>

datatype handler = OnClose | OnError | OnMessage | OnOpen "nat option"

record socket =
  ws_url :: string
  ws_protocol :: string
  ws_readyState :: readyState
  ws_listeners :: "(string \<times> handler) list"
  ws_sent :: "(string \<times> jsval list) list"

datatype event =
    NewWebSocket nat string string
  | AddEventListener nat string handler
  | RemoveEventListener nat string handler
  | WsClose nat
  | WsSend nat string "jsval list"
  | SetTimeout nat int
  | ClearTimeout nat
  | NewMocha nat
  | MochaRun nat nat
  | NotifyConnected nat
  | NotifyFn nat
  | NotifyDisconnected int string
  | NotifyInstrumented nat
  | NotifyRunning nat

text \<open>
  Sockets, Mocha instances and runners are objects: a store from references to
  their state, with a counter for the next fresh reference. A timer handle is
  never falsy (a positive integer in a browser, an object in Node), so the test
  \<open>if (this.retryTimeout)\<close> is the test that a handle was stored. The only
  callback the client ever schedules is the reconnect, so a pending timer is a
  handle and its delay. A listener on a runner is \<open>send\<close> bound to an event
  name, registered for an event name.
\<close>

record env =
  websocket_defined :: bool
  transport_kind :: transport
  sockets :: "nat \<Rightarrow> socket"
  socket_count :: nat
  timers :: "(nat \<times> int) list"
  timer_seq :: nat
  mochas :: "nat \<Rightarrow> mocha"
  mocha_count :: nat
  runner_listeners :: "nat \<Rightarrow> (string \<times> string) list"
  runner_count :: nat
  trace :: "event list"

record client =
  config :: config
  ws :: "nat option"
  instrumentedMocha :: "nat option"
  retryTimeout :: "nat option"

type_synonym world = "client \<times> env"

type_synonym 'a outcome = "(error + 'a) \<times> world"

definition log :: "event \<Rightarrow> env \<Rightarrow> env" where
  "log ev e = e\<lparr>trace := trace e @ [ev]\<rparr>"

definition setTimeout :: "int \<Rightarrow> env \<Rightarrow> nat \<times> env" where
  "setTimeout delay e =
     (let t = timer_seq e
      in (t, log (SetTimeout t delay)
               (e\<lparr>timers := timers e @ [(t, delay)], timer_seq := Suc t\<rparr>)))"

definition clearTimeout :: "nat \<Rightarrow> env \<Rightarrow> env" where
  "clearTimeout t e =
     log (ClearTimeout t) (e\<lparr>timers := filter (\<lambda>p. fst p \<noteq> t) (timers e)\<rparr>)"

definition new_WebSocket :: "string \<Rightarrow> string \<Rightarrow> env \<Rightarrow> nat \<times> env" where
  "new_WebSocket u proto e =
     (let s = socket_count e
      in (s, log (NewWebSocket s u proto)
               (e\<lparr>sockets := (sockets e)(s :=
                      \<lparr> ws_url = u, ws_protocol = proto, ws_readyState = CONNECTING,
                        ws_listeners = [], ws_sent = [] \<rparr>),
                    socket_count := Suc s\<rparr>)))"

text \<open>\<open>addEventListener\<close> ignores a listener that is already registered for the
  event type; \<open>removeEventListener\<close> removes it.\<close>

definition addEventListener :: "nat \<Rightarrow> string \<Rightarrow> handler \<Rightarrow> env \<Rightarrow> env" where
  "addEventListener s ty h e =
     log (AddEventListener s ty h)
       (e\<lparr>sockets := (sockets e)(s := (sockets e s)
              \<lparr>ws_listeners :=
                 (if (ty, h) \<in> set (ws_listeners (sockets e s)) then ws_listeners (sockets e s)
                  else ws_listeners (sockets e s) @ [(ty, h)])\<rparr>)\<rparr>)"

definition removeEventListener :: "nat \<Rightarrow> string \<Rightarrow> handler \<Rightarrow> env \<Rightarrow> env" where
  "removeEventListener s ty h e =
     log (RemoveEventListener s ty h)
       (e\<lparr>sockets := (sockets e)(s := (sockets e s)
              \<lparr>ws_listeners := filter (\<lambda>l. l \<noteq> (ty, h)) (ws_listeners (sockets e s))\<rparr>)\<rparr>)"

text \<open>
  \<open>ws.close()\<close> starts the closing handshake unless the socket is closed
  already; the close event comes later, from the transport. In a browser it
  never throws. With the \<open>ws\<close> package, \<open>close()\<close> on a socket that is still
  connecting aborts the handshake and emits an error event at once, inside the
  call; as on every Node event emitter, an error event that no listener is
  registered for is thrown. (The client's own error listener, \<open>onError\<close>, only
  logs.)
\<close>

definition ws_close :: "nat \<Rightarrow> env \<Rightarrow> (error + unit) \<times> env" where
  "ws_close s e =
     (let e1 = log (WsClose s)
                 (e\<lparr>sockets := (sockets e)(s := (sockets e s)
                        \<lparr>ws_readyState :=
                           (if ws_readyState (sockets e s) = CLOSED then CLOSED
                            else CLOSING)\<rparr>)\<rparr>)
      in if transport_kind e = NodeWs \<and> ws_readyState (sockets e s) = CONNECTING \<and>
            filter (\<lambda>l. fst l = ''error'') (ws_listeners (sockets e s)) = []
         then (Inl (JsError ''WebSocket was closed before the connection was established''), e1)
         else (Inr (), e1))"

text \<open>\<open>ws.send(stringify({ eventName, args }))\<close>: the frame is kept as the envelope
  it encodes.\<close>

definition ws_send :: "nat \<Rightarrow> string \<Rightarrow> jsval list \<Rightarrow> env \<Rightarrow> env" where
  "ws_send s eventName args e =
     log (WsSend s eventName args)
       (e\<lparr>sockets := (sockets e)(s := (sockets e s)
              \<lparr>ws_sent := ws_sent (sockets e s) @ [(eventName, args)]\<rparr>)\<rparr>)"

definition render_id :: "string option \<Rightarrow> string" where
  "render_id i = (case i of Some s \<Rightarrow> s | None \<Rightarrow> ''undefined'')"

subsection \<open>connect and disconnect\<close>

definition connect :: "nat option \<Rightarrow> world \<Rightarrow> unit outcome" where
  "connect fn w =
     (case w of (c, e) \<Rightarrow>
        if ws c \<noteq> None then (Inl (JsError ''Already connected''), w)
        else
          let e1 = (case retryTimeout c of Some t \<Rightarrow> clearTimeout t e | None \<Rightarrow> e);
              (s, e2) = new_WebSocket (url (config c))
                          (''mocha-remote-'' @ render_id (id_cfg (config c))) e1;
              c' = c\<lparr>ws := Some s\<rparr>;
              e3 = addEventListener s ''close'' OnClose e2;
              e4 = addEventListener s ''error'' OnError e3;
              e5 = addEventListener s ''message'' OnMessage e4;
              e6 = addEventListener s ''open'' (OnOpen fn) e5
          in (Inr (), (c', e6)))"

text \<open>When \<open>this.ws.close()\<close> throws, \<open>delete this.ws\<close> is not reached.\<close>

definition disconnect :: "world \<Rightarrow> unit outcome" where
  "disconnect w =
     (case w of (c, e) \<Rightarrow>
        let e1 = (case retryTimeout c of Some t \<Rightarrow> clearTimeout t e | None \<Rightarrow> e)
        in case ws c of
             Some s \<Rightarrow>
               let e2 = removeEventListener s ''close'' OnClose e1;
                   e3 = removeEventListener s ''error'' OnError e2;
                   e4 = removeEventListener s ''message'' OnMessage e3
               in (case ws_close s e4 of
                     (Inl err, e5) \<Rightarrow> (Inl err, (c, e5))
                   | (Inr u, e5) \<Rightarrow> (Inr (), (c\<lparr>ws := None\<rparr>, e5)))
           | None \<Rightarrow> (Inr (), (c, e1)))"

subsection \<open>The constructor\<close>

definition new_client :: "partial_config \<Rightarrow> env \<Rightarrow> (error + client) \<times> env" where
  "new_client p e =
     (let c = \<lparr> config = merge_config DEFAULT_CONFIG p, ws = None,
                 instrumentedMocha = None, retryTimeout = None \<rparr>
      in if \<not> websocket_defined e then
           (Inl (JsError ''mocha-remote-client expects a global WebSocket''), e)
         else if autoConnect (config c) then
           (case connect None (c, e) of
              (Inl err, (c', e')) \<Rightarrow> (Inl err, e')
            | (Inr u, (c', e')) \<Rightarrow> (Inr c', e'))
         else (Inr c, e))"

subsection \<open>send\<close>

definition send :: "string \<Rightarrow> jsval list \<Rightarrow> world \<Rightarrow> unit outcome" where
  "send eventName args w =
     (case w of (c, e) \<Rightarrow>
        case ws c of
          Some s \<Rightarrow>
            if ws_readyState (sockets e s) = OPEN then
              let preparedArgs = prepareArgs args
              in (Inr (), (c, ws_send s eventName preparedArgs e))
            else (Inl (JsError (''Cannot send '' @ eventName @ '' WebSocket is closed'')), w)
        | None \<Rightarrow> (Inl (JsError (''Cannot send '' @ eventName @ '' WebSocket is closed'')), w))"

subsection \<open>The instrumentation shim\<close>

definition MOCHA_EVENT_NAMES :: "string list" where
  "MOCHA_EVENT_NAMES =
     [''start'', ''end'', ''suite'', ''suite end'', ''test'', ''test end'',
      ''hook'', ''hook end'', ''pass'', ''fail'', ''pending'']"

definition instrument :: "nat \<Rightarrow> world \<Rightarrow> nat \<times> world" where
  "instrument m w =
     (case w of (c, e) \<Rightarrow>
        let c' = c\<lparr>instrumentedMocha := Some m\<rparr>;
            e1 = e\<lparr>mochas := (mochas e)(m := (mochas e m)
                    \<lparr>m_originalRun := Some (m_run (mochas e m))\<rparr>)\<rparr>;
            e2 = e1\<lparr>mochas := (mochas e1)(m := (mochas e1 m)\<lparr>m_run := GuardRun\<rparr>)\<rparr>;
            e3 = e2\<lparr>mochas := (mochas e2)(m := (mochas e2 m)\<lparr>m_reporter := WarnReporter\<rparr>)\<rparr>;
            e4 = (if onInstrumented (config c') then log (NotifyInstrumented m) e3 else e3)
        in (m, (c', e4)))"

text \<open>The constructor of the reporter class that \<open>createReporter\<close> returns: for
  each lifecycle event name, \<open>runner.addListener(eventName, client.send.bind(client,
  eventName))\<close>.\<close>

definition remote_reporter :: "nat \<Rightarrow> env \<Rightarrow> env" where
  "remote_reporter r e =
     e\<lparr>runner_listeners := (runner_listeners e)(r :=
          fold (\<lambda>eventName ls. ls @ [(eventName, eventName)]) MOCHA_EVENT_NAMES
            (runner_listeners e r))\<rparr>"

text \<open>
  The framework emits an event on a runner: the listeners registered for its
  name are called with the arguments, in registration order; a listener of the
  client is \<open>send\<close> with its bound name. An exception of a listener leaves the
  emitter at once and reaches whoever emitted.
\<close>

fun call_listeners :: "(string \<times> string) list \<Rightarrow> jsval list \<Rightarrow> world \<Rightarrow> unit outcome" where
  "call_listeners [] args w = (Inr (), w)"
| "call_listeners (l # ls) args w =
     (case send (snd l) args w of
        (Inl err, w') \<Rightarrow> (Inl err, w')
      | (Inr u, w') \<Rightarrow> call_listeners ls args w')"

definition runner_emit :: "nat \<Rightarrow> string \<Rightarrow> jsval list \<Rightarrow> world \<Rightarrow> unit outcome" where
  "runner_emit r name args w =
     call_listeners (filter (\<lambda>l. fst l = name) (runner_listeners (snd w) r)) args w"

fun emit_all :: "nat \<Rightarrow> (string \<times> jsval list) list \<Rightarrow> world \<Rightarrow> unit outcome" where
  "emit_all r [] w = (Inr (), w)"
| "emit_all r (ev # evs) w =
     (case runner_emit r (fst ev) (snd ev) w of
        (Inl err, w') \<Rightarrow> (Inl err, w')
      | (Inr u, w') \<Rightarrow> emit_all r evs w')"

text \<open>Mocha's own \<open>run\<close> (the framework, an external collaborator): it makes a
  runner, constructs the reporter stored in \<open>_reporter\<close> on it, emits what the
  instance emits before \<open>run\<close> returns, and returns the runner.\<close>

definition new_runner :: "nat \<Rightarrow> world \<Rightarrow> world" where
  "new_runner m w =
     (case w of (c, e) \<Rightarrow>
        let r = runner_count e;
            e1 = log (MochaRun m r)
                   (e\<lparr>runner_listeners := (runner_listeners e)(r := []),
                      runner_count := Suc r\<rparr>);
            e2 = (case m_reporter_class (mochas e1 m) of
                    RemoteReporter \<Rightarrow> remote_reporter r e1
                  | DefaultReporter \<Rightarrow> e1)
        in (c, e2))"

definition mocha_run :: "nat \<Rightarrow> world \<Rightarrow> nat outcome" where
  "mocha_run m w =
     (let r = runner_count (snd w);
          w1 = new_runner m w
      in case emit_all r (m_emits (mochas (snd w1) m)) w1 of
           (Inl err, w') \<Rightarrow> (Inl err, w')
         | (Inr u, w') \<Rightarrow> (Inr r, w'))"

text \<open>Calling a function stored in \<open>run\<close> or \<open>originalRun\<close> on the instance.\<close>

fun call_run :: "run_impl \<Rightarrow> nat \<Rightarrow> world \<Rightarrow> nat outcome" where
  "call_run GuardRun m w =
     (Inl (JsError ''This Mocha instance is instrumented by mocha-remote-client, use the server to run tests''), w)"
| "call_run NativeRun m w = mocha_run m w"

text \<open>\<open>mocha.run()\<close>, called by anyone directly on the instance.\<close>

definition direct_run :: "nat \<Rightarrow> world \<Rightarrow> nat outcome" where
  "direct_run m w = call_run (m_run (mochas (snd w) m)) m w"

definition run :: "nat \<Rightarrow> world \<Rightarrow> nat outcome" where
  "run m w =
     (case w of (c, e) \<Rightarrow>
        let e1 = e\<lparr>mochas := (mochas e)(m := (mochas e m)\<lparr>m_reporter_class := RemoteReporter\<rparr>)\<rparr>
        in case m_originalRun (mochas e1 m) of
             None \<Rightarrow> (Inl (JsTypeError ''mocha.originalRun is not a function''), (c, e1))
           | Some f \<Rightarrow>
               (case call_run f m (c, e1) of
                  (Inl err, w2) \<Rightarrow> (Inl err, w2)
                | (Inr runner, (c2, e2)) \<Rightarrow>
                    (Inr runner,
                     (c2, if onRunning (config c2) then log (NotifyRunning runner) e2 else e2))))"

text \<open>\<open>this.config.createMocha(this.config)\<close>, then \<open>instrument\<close>.\<close>

definition getMocha :: "world \<Rightarrow> nat \<times> world" where
  "getMocha w =
     (case w of (c, e) \<Rightarrow>
        case instrumentedMocha c of
          Some m \<Rightarrow> (m, w)
        | None \<Rightarrow>
            (case createMocha (config c) (config_data.truncate (config c))
                    (mochas e, mocha_count e) of
               (m, h) \<Rightarrow>
                 instrument m (c, log (NewMocha m) (e\<lparr>mochas := fst h, mocha_count := snd h\<rparr>))))"

subsection \<open>Event handlers\<close>

definition onClose :: "int \<Rightarrow> string \<Rightarrow> world \<Rightarrow> world" where
  "onClose code reason w =
     (case w of (c, e) \<Rightarrow>
        let c1 = c\<lparr>ws := None\<rparr>;
            (c2, e2) =
              (if code \<noteq> 1000 \<and> autoRetry (config c1) then
                 (case setTimeout (retryDelay (config c1)) e of
                    (t, e') \<Rightarrow> (c1\<lparr>retryTimeout := Some t\<rparr>, e'))
               else (c1, e));
            e3 = (if onDisconnected (config c2) then log (NotifyDisconnected code reason) e2
                  else e2)
        in (c2, e3))"

definition onError :: "world \<Rightarrow> world" where
  "onError w = w"

text \<open>The argument is \<open>JSON.parse(event.data)\<close>, the decoded message.\<close>

definition onMessage :: "jsval \<Rightarrow> world \<Rightarrow> unit outcome" where
  "onMessage data w =
     (case get_property data ''eventName'' of
        Inl err \<Rightarrow> (Inl err, w)
      | Inr name \<Rightarrow>
          if name = JString ''run'' then
            (case getMocha w of
               (m, (c1, e1)) \<Rightarrow>
                 (case run m (c1\<lparr>instrumentedMocha := None\<rparr>, e1) of
                    (Inl err, w2) \<Rightarrow> (Inl err, w2)
                  | (Inr runner, w2) \<Rightarrow> (Inr (), w2)))
          else (Inr (), w))"

definition onOpen :: "nat option \<Rightarrow> nat \<Rightarrow> world \<Rightarrow> world" where
  "onOpen fn s w =
     (case w of (c, e) \<Rightarrow>
        let e1 = (if onConnected (config c) then log (NotifyConnected s) e else e);
            e2 = (case fn of Some f \<Rightarrow> log (NotifyFn f) e1 | None \<Rightarrow> e1)
        in (c, e2))"

subsection \<open>The transport and the timer table deliver events\<close>

text \<open>
  The transport fires an event on a socket: the listeners registered for the
  event type on that socket run, in registration order. An open event leaves the
  socket open, a close event leaves it closed; a message event carries the
  decoded data. A timer that is still pending fires once: it leaves the table
  and its callback, \<open>this.connect()\<close>, runs.
\<close>

fun call_handler :: "handler \<Rightarrow> nat \<Rightarrow> int \<Rightarrow> string \<Rightarrow> jsval \<Rightarrow> world \<Rightarrow> world" where
  "call_handler OnClose s code reason data w = onClose code reason w"
| "call_handler OnError s code reason data w = onError w"
| "call_handler OnMessage s code reason data w = snd (onMessage data w)"
| "call_handler (OnOpen fn) s code reason data w = onOpen fn s w"

definition dispatch :: "nat \<Rightarrow> string \<Rightarrow> int \<Rightarrow> string \<Rightarrow> jsval \<Rightarrow> world \<Rightarrow> world" where
  "dispatch s ty code reason data w =
     fold (\<lambda>l w'. call_handler (snd l) s code reason data w')
       (filter (\<lambda>l. fst l = ty) (ws_listeners (sockets (snd w) s))) w"

definition fire_close :: "nat \<Rightarrow> int \<Rightarrow> string \<Rightarrow> world \<Rightarrow> world" where
  "fire_close s code reason w =
     (case w of (c, e) \<Rightarrow>
        dispatch s ''close'' code reason JUndefined
          (c, e\<lparr>sockets := (sockets e)(s := (sockets e s)\<lparr>ws_readyState := CLOSED\<rparr>)\<rparr>))"

definition fire_open :: "nat \<Rightarrow> world \<Rightarrow> world" where
  "fire_open s w =
     (case w of (c, e) \<Rightarrow>
        dispatch s ''open'' 0 [] JUndefined
          (c, e\<lparr>sockets := (sockets e)(s := (sockets e s)\<lparr>ws_readyState := OPEN\<rparr>)\<rparr>))"

definition fire_message :: "nat \<Rightarrow> jsval \<Rightarrow> world \<Rightarrow> world" where
  "fire_message s data w = dispatch s ''message'' 0 [] data w"

definition fire_error :: "nat \<Rightarrow> world \<Rightarrow> world" where
  "fire_error s w = dispatch s ''error'' 0 [] JUndefined w"

definition fire_timer :: "nat \<Rightarrow> world \<Rightarrow> unit outcome" where
  "fire_timer t w =
     (case w of (c, e) \<Rightarrow>
        if t \<in> fst ` set (timers e) then
          connect None (c, e\<lparr>timers := filter (\<lambda>p. fst p \<noteq> t) (timers e)\<rparr>)
        else (Inr (), w))"

subsection \<open>The worlds a client can be in\<close>

text \<open>
  A client is constructed in an environment where no timer is pending and no
  socket carries a listener yet. From there the world changes by calls of the
  public methods, by Mocha's own \<open>run\<close> called directly, by user code
  constructing or changing Mocha instances, by events the framework emits on a
  runner, by events of the transport (a socket opens while it is connecting,
  delivers a message while it is open, closes once) and by timers firing.
\<close>

definition fresh_env :: "env \<Rightarrow> bool" where
  "fresh_env e = (timers e = [] \<and> (\<forall>s. ws_listeners (sockets e s) = []))"

inductive reachable :: "world \<Rightarrow> bool" where
  constructed: "fresh_env e \<Longrightarrow> new_client p e = (Inr c, e') \<Longrightarrow> reachable (c, e')"
| called_connect: "reachable w \<Longrightarrow> reachable (snd (connect fn w))"
| called_disconnect: "reachable w \<Longrightarrow> reachable (snd (disconnect w))"
| called_instrument: "reachable w \<Longrightarrow> reachable (snd (instrument m w))"
| called_run: "reachable w \<Longrightarrow> reachable (snd (run m w))"
| called_getMocha: "reachable w \<Longrightarrow> reachable (snd (getMocha w))"
| called_direct_run: "reachable w \<Longrightarrow> reachable (snd (direct_run m w))"
| changed_mochas:
    "reachable w \<Longrightarrow> reachable (fst w, (snd w)\<lparr>mochas := ms, mocha_count := n\<rparr>)"
| emitted: "reachable w \<Longrightarrow> reachable (snd (runner_emit r name args w))"
| opened:
    "reachable w \<Longrightarrow> ws_readyState (sockets (snd w) s) = CONNECTING \<Longrightarrow>
     reachable (fire_open s w)"
| received:
    "reachable w \<Longrightarrow> ws_readyState (sockets (snd w) s) = OPEN \<Longrightarrow>
     reachable (fire_message s data w)"
| failed: "reachable w \<Longrightarrow> reachable (fire_error s w)"
| closed:
    "reachable w \<Longrightarrow> ws_readyState (sockets (snd w) s) \<noteq> CLOSED \<Longrightarrow>
     reachable (fire_close s code reason w)"
| fired: "reachable w \<Longrightarrow> reachable (snd (fire_timer t w))"

text \<open>The notifications a user of the client observes: the callbacks of the
  configuration and the one-shot callback of \<open>connect\<close>.\<close>

fun is_notification :: "event \<Rightarrow> bool" where
  "is_notification (NotifyConnected s) = True"
| "is_notification (NotifyFn f) = True"
| "is_notification (NotifyDisconnected code reason) = True"
| "is_notification (NotifyInstrumented m) = True"
| "is_notification (NotifyRunning r) = True"
| "is_notification ev = False"

definition notifications :: "world \<Rightarrow> event list" where
  "notifications w = filter is_notification (trace (snd w))"

text \<open>What a reader of the trace counts: the timers the client scheduled, the
  runs of Mocha's own \<open>run\<close> on an instance, the \<open>onDisconnected\<close>
  notifications.\<close>

fun is_SetTimeout :: "event \<Rightarrow> bool" where
  "is_SetTimeout (SetTimeout t delay) = True"
| "is_SetTimeout ev = False"

definition scheduled :: "world \<Rightarrow> event list" where
  "scheduled w = filter is_SetTimeout (trace (snd w))"

fun is_MochaRun :: "nat \<Rightarrow> event \<Rightarrow> bool" where
  "is_MochaRun m (MochaRun m' r) = (m = m')"
| "is_MochaRun m ev = False"

definition original_runs :: "nat \<Rightarrow> world \<Rightarrow> event list" where
  "original_runs m w = filter (is_MochaRun m) (trace (snd w))"

fun is_NotifyDisconnected :: "event \<Rightarrow> bool" where
  "is_NotifyDisconnected (NotifyDisconnected code reason) = True"
| "is_NotifyDisconnected ev = False"

definition disconnected_notes :: "world \<Rightarrow> event list" where
  "disconnected_notes w = filter is_NotifyDisconnected (trace (snd w))"

text \<open>The world once \<open>run\<close> has stored the client's reporter class in
  \<open>_reporter\<close> of an instance.\<close>

definition reporter_installed :: "nat \<Rightarrow> world \<Rightarrow> world" where
  "reporter_installed m w =
     (fst w, (snd w)\<lparr>mochas := (mochas (snd w))(m := (mochas (snd w) m)
                       \<lparr>m_reporter_class := RemoteReporter\<rparr>)\<rparr>)"

text \<open>The environment after frames were transmitted on a socket, and the frames
  a list of listeners sends for a list of emitted events.\<close>

definition sent_frames :: "nat \<Rightarrow> (string \<times> jsval list) list \<Rightarrow> env \<Rightarrow> env" where
  "sent_frames s fs e = fold (\<lambda>f e'. ws_send s (fst f) (snd f) e') fs e"

definition listener_frames ::
  "(string \<times> string) list \<Rightarrow> (string \<times> jsval list) list \<Rightarrow> (string \<times> jsval list) list" where
  "listener_frames ls evs =
     concat (map (\<lambda>ev. map (\<lambda>l. (snd l, prepareArgs (snd ev)))
                          (filter (\<lambda>l. fst l = fst ev) ls)) evs)"

text \<open>The frames the client's reporter sends for a list of emitted events: one
  for each event whose name is a lifecycle event name.\<close>

definition reporter_frames :: "(string \<times> jsval list) list \<Rightarrow> (string \<times> jsval list) list" where
  "reporter_frames evs =
     map (\<lambda>ev. (fst ev, prepareArgs (snd ev)))
       (filter (\<lambda>ev. fst ev \<in> set MOCHA_EVENT_NAMES) evs)"

definition connection_open :: "world \<Rightarrow> bool" where
  "connection_open w =
     (case ws (fst w) of
        Some s \<Rightarrow> ws_readyState (sockets (snd w) s) = OPEN
      | None \<Rightarrow> False)"

text \<open>The test \<open>data.eventName === "run"\<close> of \<open>onMessage\<close>.\<close>

definition is_run_request :: "jsval \<Rightarrow> bool" where
  "is_run_request data = (get_property data ''eventName'' = Inr (JString ''run''))"

text \<open>Every listener registered for the close event on a socket is the client's
  \<open>onClose\<close>: what \<open>connect\<close> leaves on the sockets it creates.\<close>

definition only_onClose_listens :: "world \<Rightarrow> nat \<Rightarrow> bool" where
  "only_onClose_listens w s =
     (\<forall>l \<in> set (ws_listeners (sockets (snd w) s)). fst l = ''close'' \<longrightarrow> snd l = OnClose)"

text \<open>A listener of the kind \<open>connect\<close> registers: a handler of the client
  under its own event type. On every socket, all listeners are of that kind.\<close>

definition client_listener :: "string \<times> handler \<Rightarrow> bool" where
  "client_listener l =
     (case snd l of
        OnClose \<Rightarrow> fst l = ''close''
      | OnError \<Rightarrow> fst l = ''error''
      | OnMessage \<Rightarrow> fst l = ''message''
      | OnOpen fn \<Rightarrow> fst l = ''open'')"

definition only_client_listeners :: "env \<Rightarrow> bool" where
  "only_client_listeners e = (\<forall>s. list_all client_listener (ws_listeners (sockets e s)))"

text \<open>
  The connection manager's bookkeeping is consistent: every pending timer is the
  one whose handle is stored; while a connection is stored no timer is pending;
  a socket that can still deliver a close event to \<open>onClose\<close> is the stored
  connection; every listener is the client's own, registered once.
\<close>

definition consistent :: "world \<Rightarrow> bool" where
  "consistent w =
     ((\<forall>p \<in> set (timers (snd w)). retryTimeout (fst w) = Some (fst p)) \<and>
      (ws (fst w) \<noteq> None \<longrightarrow> timers (snd w) = []) \<and>
      (\<forall>s. (''close'', OnClose) \<in> set (ws_listeners (sockets (snd w) s)) \<and>
           ws_readyState (sockets (snd w) s) \<noteq> CLOSED \<longrightarrow> ws (fst w) = Some s) \<and>
      only_client_listeners (snd w) \<and>
      (\<forall>s. distinct (ws_listeners (sockets (snd w) s))))"

text \<open>Two worlds agree on what the connection manager keeps: the stored
  connection and timer handle, the pending timers, and the listeners and the
  state of every socket.\<close>

definition same_connection :: "world \<Rightarrow> world \<Rightarrow> bool" where
  "same_connection w' w =
     (ws (fst w') = ws (fst w) \<and> retryTimeout (fst w') = retryTimeout (fst w) \<and>
      timers (snd w') = timers (snd w) \<and>
      (\<forall>s. ws_listeners (sockets (snd w') s) = ws_listeners (sockets (snd w) s)) \<and>
      (\<forall>s. ws_readyState (sockets (snd w') s) = ws_readyState (sockets (snd w) s)))"

subsection \<open>Example worlds\<close>

definition no_socket :: socket where
  "no_socket =
     \<lparr> ws_url = [], ws_protocol = [], ws_readyState = CLOSED, ws_listeners = [],
       ws_sent = [] \<rparr>"

definition env0 :: env where
  "env0 =
     \<lparr> websocket_defined = True, transport_kind = Browser, sockets = (\<lambda>s. no_socket),
       socket_count = 0, timers = [], timer_seq = 0, mochas = (\<lambda>m. new_Mocha []),
       mocha_count = 1,
       runner_listeners = (\<lambda>r. []), runner_count = 0, trace = [] \<rparr>"

definition example_config :: config where
  "example_config =
     DEFAULT_CONFIG\<lparr> autoConnect := False, onConnected := True, onDisconnected := True,
       onInstrumented := True, onRunning := True \<rparr>"

definition example_client :: client where
  "example_client =
     \<lparr> config = example_config, ws = None, instrumentedMocha = None,
       retryTimeout = None \<rparr>"

definition example_world :: world where
  "example_world = (example_client, env0)"

definition connected_world :: world where
  "connected_world = snd (connect None example_world)"

definition open_world :: world where
  "open_world = fire_open 0 connected_world"



definition instrumented_open_world :: world where
  "instrumented_open_world = snd (instrument 0 open_world)"

definition ran_world :: world where
  "ran_world = snd (run 0 instrumented_open_world)"

definition retrying_world :: world where
  "retrying_world = onClose 1006 ''connection lost'' connected_world"


definition instrumented_world :: world where
  "instrumented_world = snd (instrument 0 example_world)"

definition type_run_message :: jsval where
  "type_run_message = JObject PlainObject [(''type'', True, JString ''run'')]"

definition eventName_run_message :: jsval where
  "eventName_run_message = JObject PlainObject [(''eventName'', True, JString ''run'')]"

definition no_overrides :: partial_config where
  "no_overrides =
     \<lparr> p_autoConnect = None, p_autoRetry = None, p_retryDelay = None, p_url = None,
       p_id = None, p_onConnected = False, p_onDisconnected = False,
       p_onInstrumented = False, p_onRunning = False, p_mochaOptions = None,
       p_createMocha = None \<rparr>"


definition example_args :: "jsval list" where
  "example_args =
     [JObject ErrorObject
        [(''message'', False, JString ''boom''), (''stack'', False, JString ''Error: boom''),
         (''code'', True, JNumber 7)],
      JString ''test title'', JObject PlainObject [(''title'', True, JString ''t'')]]"

section \<open>Properties\<close>

subsection \<open>What each collaborator call does to each part of the environment\<close>


lemma log_fields:
  "websocket_defined (log ev e) = websocket_defined e"
  "transport_kind (log ev e) = transport_kind e"
  "sockets (log ev e) = sockets e"
  "socket_count (log ev e) = socket_count e"
  "timers (log ev e) = timers e"
  "timer_seq (log ev e) = timer_seq e"
  "mochas (log ev e) = mochas e"
  "mocha_count (log ev e) = mocha_count e"
  "runner_listeners (log ev e) = runner_listeners e"
  "runner_count (log ev e) = runner_count e"
  "trace (log ev e) = trace e @ [ev]"
  by (simp_all add: log_def)

lemma clearTimeout_fields:
  "websocket_defined (clearTimeout t e) = websocket_defined e"
  "transport_kind (clearTimeout t e) = transport_kind e"
  "sockets (clearTimeout t e) = sockets e"
  "socket_count (clearTimeout t e) = socket_count e"
  "timers (clearTimeout t e) = filter (\<lambda>p. fst p \<noteq> t) (timers e)"
  "timer_seq (clearTimeout t e) = timer_seq e"
  "mochas (clearTimeout t e) = mochas e"
  "mocha_count (clearTimeout t e) = mocha_count e"
  "runner_listeners (clearTimeout t e) = runner_listeners e"
  "runner_count (clearTimeout t e) = runner_count e"
  "trace (clearTimeout t e) = trace e @ [ClearTimeout t]"
  by (simp_all add: clearTimeout_def log_def)

lemma setTimeout_fields:
  "fst (setTimeout d e) = timer_seq e"
  "websocket_defined (snd (setTimeout d e)) = websocket_defined e"
  "transport_kind (snd (setTimeout d e)) = transport_kind e"
  "sockets (snd (setTimeout d e)) = sockets e"
  "socket_count (snd (setTimeout d e)) = socket_count e"
  "timers (snd (setTimeout d e)) = timers e @ [(timer_seq e, d)]"
  "timer_seq (snd (setTimeout d e)) = Suc (timer_seq e)"
  "mochas (snd (setTimeout d e)) = mochas e"
  "mocha_count (snd (setTimeout d e)) = mocha_count e"
  "runner_listeners (snd (setTimeout d e)) = runner_listeners e"
  "runner_count (snd (setTimeout d e)) = runner_count e"
  "trace (snd (setTimeout d e)) = trace e @ [SetTimeout (timer_seq e) d]"
  by (simp_all add: setTimeout_def log_def Let_def)

lemma new_WebSocket_fields:
  "fst (new_WebSocket u p e) = socket_count e"
  "websocket_defined (snd (new_WebSocket u p e)) = websocket_defined e"
  "transport_kind (snd (new_WebSocket u p e)) = transport_kind e"
  "sockets (snd (new_WebSocket u p e)) =
     (sockets e)(socket_count e :=
        \<lparr> ws_url = u, ws_protocol = p, ws_readyState = CONNECTING, ws_listeners = [],
          ws_sent = [] \<rparr>)"
  "socket_count (snd (new_WebSocket u p e)) = Suc (socket_count e)"
  "timers (snd (new_WebSocket u p e)) = timers e"
  "timer_seq (snd (new_WebSocket u p e)) = timer_seq e"
  "mochas (snd (new_WebSocket u p e)) = mochas e"
  "mocha_count (snd (new_WebSocket u p e)) = mocha_count e"
  "runner_listeners (snd (new_WebSocket u p e)) = runner_listeners e"
  "runner_count (snd (new_WebSocket u p e)) = runner_count e"
  "trace (snd (new_WebSocket u p e)) = trace e @ [NewWebSocket (socket_count e) u p]"
  by (simp_all add: new_WebSocket_def log_def Let_def)

lemma addEventListener_fields:
  "websocket_defined (addEventListener s ty h e) = websocket_defined e"
  "transport_kind (addEventListener s ty h e) = transport_kind e"
  "sockets (addEventListener s ty h e) =
     (sockets e)(s := (sockets e s)
        \<lparr>ws_listeners :=
           (if (ty, h) \<in> set (ws_listeners (sockets e s)) then ws_listeners (sockets e s)
            else ws_listeners (sockets e s) @ [(ty, h)])\<rparr>)"
  "socket_count (addEventListener s ty h e) = socket_count e"
  "timers (addEventListener s ty h e) = timers e"
  "timer_seq (addEventListener s ty h e) = timer_seq e"
  "mochas (addEventListener s ty h e) = mochas e"
  "mocha_count (addEventListener s ty h e) = mocha_count e"
  "runner_listeners (addEventListener s ty h e) = runner_listeners e"
  "runner_count (addEventListener s ty h e) = runner_count e"
  "trace (addEventListener s ty h e) = trace e @ [AddEventListener s ty h]"
  by (simp_all add: addEventListener_def log_def)

lemma removeEventListener_fields:
  "websocket_defined (removeEventListener s ty h e) = websocket_defined e"
  "transport_kind (removeEventListener s ty h e) = transport_kind e"
  "sockets (removeEventListener s ty h e) =
     (sockets e)(s := (sockets e s)
        \<lparr>ws_listeners := filter (\<lambda>l. l \<noteq> (ty, h)) (ws_listeners (sockets e s))\<rparr>)"
  "socket_count (removeEventListener s ty h e) = socket_count e"
  "timers (removeEventListener s ty h e) = timers e"
  "timer_seq (removeEventListener s ty h e) = timer_seq e"
  "mochas (removeEventListener s ty h e) = mochas e"
  "mocha_count (removeEventListener s ty h e) = mocha_count e"
  "runner_listeners (removeEventListener s ty h e) = runner_listeners e"
  "runner_count (removeEventListener s ty h e) = runner_count e"
  "trace (removeEventListener s ty h e) = trace e @ [RemoveEventListener s ty h]"
  by (simp_all add: removeEventListener_def log_def)

lemma ws_close_fields:
  "fst (ws_close s e) =
     (if transport_kind e = NodeWs \<and> ws_readyState (sockets e s) = CONNECTING \<and>
         filter (\<lambda>l. fst l = ''error'') (ws_listeners (sockets e s)) = []
      then Inl (JsError ''WebSocket was closed before the connection was established'')
      else Inr ())"
  "websocket_defined (snd (ws_close s e)) = websocket_defined e"
  "transport_kind (snd (ws_close s e)) = transport_kind e"
  "sockets (snd (ws_close s e)) =
     (sockets e)(s := (sockets e s)
        \<lparr>ws_readyState := (if ws_readyState (sockets e s) = CLOSED then CLOSED else CLOSING)\<rparr>)"
  "socket_count (snd (ws_close s e)) = socket_count e"
  "timers (snd (ws_close s e)) = timers e"
  "timer_seq (snd (ws_close s e)) = timer_seq e"
  "mochas (snd (ws_close s e)) = mochas e"
  "mocha_count (snd (ws_close s e)) = mocha_count e"
  "runner_listeners (snd (ws_close s e)) = runner_listeners e"
  "runner_count (snd (ws_close s e)) = runner_count e"
  "trace (snd (ws_close s e)) = trace e @ [WsClose s]"
  by (simp_all add: ws_close_def log_def Let_def)

lemma ws_send_fields:
  "websocket_defined (ws_send s n a e) = websocket_defined e"
  "transport_kind (ws_send s n a e) = transport_kind e"
  "sockets (ws_send s n a e) =
     (sockets e)(s := (sockets e s)\<lparr>ws_sent := ws_sent (sockets e s) @ [(n, a)]\<rparr>)"
  "socket_count (ws_send s n a e) = socket_count e"
  "timers (ws_send s n a e) = timers e"
  "timer_seq (ws_send s n a e) = timer_seq e"
  "mochas (ws_send s n a e) = mochas e"
  "mocha_count (ws_send s n a e) = mocha_count e"
  "runner_listeners (ws_send s n a e) = runner_listeners e"
  "runner_count (ws_send s n a e) = runner_count e"
  "trace (ws_send s n a e) = trace e @ [WsSend s n a]"
  by (simp_all add: ws_send_def log_def)

lemmas env_fields =
  log_fields clearTimeout_fields setTimeout_fields new_WebSocket_fields
  addEventListener_fields removeEventListener_fields ws_close_fields ws_send_fields

text \<open>connect on a client without a connection\<close>

lemma connect_ok:
  assumes "ws (fst w) = None"
  shows "fst (connect fn w) = Inr ()"
    and "fst (snd (connect fn w)) = (fst w)\<lparr>ws := Some (socket_count (snd w))\<rparr>"
    and "socket_count (snd (snd (connect fn w))) = Suc (socket_count (snd w))"
    and "timers (snd (snd (connect fn w))) =
           (case retryTimeout (fst w) of
              Some t \<Rightarrow> filter (\<lambda>p. fst p \<noteq> t) (timers (snd w))
            | None \<Rightarrow> timers (snd w))"
    and "timer_seq (snd (snd (connect fn w))) = timer_seq (snd w)"
    and "mochas (snd (snd (connect fn w))) = mochas (snd w)"
    and "mocha_count (snd (snd (connect fn w))) = mocha_count (snd w)"
    and "runner_count (snd (snd (connect fn w))) = runner_count (snd w)"
    and "runner_listeners (snd (snd (connect fn w))) = runner_listeners (snd w)"
    and "websocket_defined (snd (snd (connect fn w))) = websocket_defined (snd w)"
    and "transport_kind (snd (snd (connect fn w))) = transport_kind (snd w)"
  using assms
  by (simp_all add: connect_def Let_def env_fields split_beta split: option.splits)

lemma connect_socket:
  assumes "ws (fst w) = None"
  shows "sockets (snd (snd (connect fn w))) =
           (sockets (snd w))(socket_count (snd w) :=
              \<lparr> ws_url = url (config (fst w)),
                ws_protocol = ''mocha-remote-'' @ render_id (id_cfg (config (fst w))),
                ws_readyState = CONNECTING,
                ws_listeners = [(''close'', OnClose), (''error'', OnError),
                                (''message'', OnMessage), (''open'', OnOpen fn)],
                ws_sent = [] \<rparr>)"
  using assms
  by (simp add: connect_def Let_def env_fields split_beta split: option.splits)

lemma connect_trace:
  assumes "ws (fst w) = None"
  shows "trace (snd (snd (connect fn w))) =
           trace (snd w) @
           (case retryTimeout (fst w) of Some t \<Rightarrow> [ClearTimeout t] | None \<Rightarrow> []) @
           [NewWebSocket (socket_count (snd w)) (url (config (fst w)))
              (''mocha-remote-'' @ render_id (id_cfg (config (fst w)))),
            AddEventListener (socket_count (snd w)) ''close'' OnClose,
            AddEventListener (socket_count (snd w)) ''error'' OnError,
            AddEventListener (socket_count (snd w)) ''message'' OnMessage,
            AddEventListener (socket_count (snd w)) ''open'' (OnOpen fn)]"
  using assms
  by (simp add: connect_def Let_def env_fields split_beta split: option.splits)

lemma connect_refused:
  "ws (fst w) \<noteq> None \<Longrightarrow> connect fn w = (Inl (JsError ''Already connected''), w)"
  by (simp add: connect_def split_beta)

subsection \<open>The example worlds\<close>

lemma example_world_fields:
  "config (fst example_world) = example_config"
  "ws (fst example_world) = None"
  "retryTimeout (fst example_world) = None"
  "instrumentedMocha (fst example_world) = None"
  "timers (snd example_world) = []"
  "timer_seq (snd example_world) = 0"
  "socket_count (snd example_world) = 0"
  "trace (snd example_world) = []"
  "sockets (snd example_world) s = no_socket"
  "mochas (snd example_world) m = new_Mocha []"
  "mocha_count (snd example_world) = 1"
  "runner_count (snd example_world) = 0"
  "websocket_defined (snd example_world)"
  "transport_kind (snd example_world) = Browser"
  "runner_listeners (snd example_world) r = []"
  by (simp_all add: example_world_def example_client_def env0_def)

lemma example_config_fields:
  "autoConnect example_config = False"
  "autoRetry example_config = True"
  "retryDelay example_config = 500"
  "url example_config = ''ws://localhost:8090''"
  "id_cfg example_config = Some ''default''"
  "onConnected example_config = True"
  "onDisconnected example_config = True"
  "onInstrumented example_config = True"
  "onRunning example_config = True"
  by (simp_all add: example_config_def DEFAULT_CONFIG_def)

lemma connected_world_fields:
  "config (fst connected_world) = example_config"
  "ws (fst connected_world) = Some 0"
  "retryTimeout (fst connected_world) = None"
  "instrumentedMocha (fst connected_world) = None"
  "timers (snd connected_world) = []"
  "timer_seq (snd connected_world) = 0"
  "socket_count (snd connected_world) = 1"
  "mochas (snd connected_world) m = new_Mocha []"
  "mocha_count (snd connected_world) = 1"
  "runner_count (snd connected_world) = 0"
  "ws_readyState (sockets (snd connected_world) 0) = CONNECTING"
  "ws_listeners (sockets (snd connected_world) 0) =
     [(''close'', OnClose), (''error'', OnError), (''message'', OnMessage), (''open'', OnOpen None)]"
  "ws_sent (sockets (snd connected_world) 0) = []"
proof -
  show "config (fst connected_world) = example_config"
    "ws (fst connected_world) = Some 0"
    "retryTimeout (fst connected_world) = None"
    "instrumentedMocha (fst connected_world) = None"
    "timers (snd connected_world) = []"
    "timer_seq (snd connected_world) = 0"
    "socket_count (snd connected_world) = 1"
    "mochas (snd connected_world) m = new_Mocha []"
    "mocha_count (snd connected_world) = 1"
    "runner_count (snd connected_world) = 0"
    "ws_readyState (sockets (snd connected_world) 0) = CONNECTING"
    "ws_listeners (sockets (snd connected_world) 0) =
       [(''close'', OnClose), (''error'', OnError), (''message'', OnMessage), (''open'', OnOpen None)]"
    "ws_sent (sockets (snd connected_world) 0) = []"
    unfolding connected_world_def
    by (simp_all add: connect_ok connect_socket example_world_fields)
qed

lemma connected_world_trace:
  "trace (snd connected_world) =
     [NewWebSocket 0 ''ws://localhost:8090'' ''mocha-remote-default'',
      AddEventListener 0 ''close'' OnClose, AddEventListener 0 ''error'' OnError,
      AddEventListener 0 ''message'' OnMessage, AddEventListener 0 ''open'' (OnOpen None)]"
  by (simp add: connected_world_def connect_trace example_world_fields example_config_fields
        render_id_def)

lemma open_world_env:
  "snd open_world =
     log (NotifyConnected 0)
       ((snd connected_world)\<lparr>sockets := (sockets (snd connected_world))(0 :=
           (sockets (snd connected_world) 0)\<lparr>ws_readyState := OPEN\<rparr>)\<rparr>)"
  "fst open_world = fst connected_world"
  by (simp_all add: open_world_def fire_open_def dispatch_def onOpen_def split_beta Let_def
        connected_world_fields example_config_fields)

lemma open_world_fields:
  "config (fst open_world) = example_config"
  "ws (fst open_world) = Some 0"
  "retryTimeout (fst open_world) = None"
  "instrumentedMocha (fst open_world) = None"
  "ws_readyState (sockets (snd open_world) 0) = OPEN"
  "ws_sent (sockets (snd open_world) 0) = []"
  "trace (snd open_world) = trace (snd connected_world) @ [NotifyConnected 0]"
  "mochas (snd open_world) m = new_Mocha []"
  "mocha_count (snd open_world) = 1"
  "runner_count (snd open_world) = 0"
  "timers (snd open_world) = []"
  by (simp_all add: open_world_env env_fields connected_world_fields)

lemma retrying_world_fields:
  "config (fst retrying_world) = example_config"
  "ws (fst retrying_world) = None"
  "retryTimeout (fst retrying_world) = Some 0"
  "timers (snd retrying_world) = [(0, 500)]"
  by (simp_all add: retrying_world_def onClose_def split_beta Let_def env_fields
        connected_world_fields example_config_fields)

subsection \<open>The codec: Error arguments become plain mappings\<close>

lemma get_own_put_own:
  "get_own (put_own key v ps) key' = (if key' = key then v else get_own ps key')"
  by (induction ps) auto

lemma get_own_copy:
  "get_own (fold (\<lambda>key result. put_own key (get_own ps key) result) names acc) k =
     (if k \<in> set names then get_own ps k else get_own acc k)"
  by (induction names arbitrary: acc) (auto simp: get_own_put_own)

lemma keys_put_own: "fst ` set (put_own key v ps) = insert key (fst ` set ps)"
  by (induction key v ps rule: put_own.induct) (simp_all add: insert_commute)

lemma get_own_absent: "k \<notin> fst ` set ps \<Longrightarrow> get_own ps k = JUndefined"
  by (induction ps k rule: get_own.induct) simp_all

lemma keys_copy:
  "fst ` set (fold (\<lambda>key result. put_own key (get_own ps key) result) names acc) =
     set names \<union> fst ` set acc"
  by (induction names arbitrary: acc) (simp_all add: keys_put_own)

lemma put_own_fresh: "key \<notin> fst ` set ps \<Longrightarrow> put_own key v ps = ps @ [(key, True, v)]"
  by (induction key v ps rule: put_own.induct) simp_all

lemma copy_distinct:
  "distinct (map fst qs) \<Longrightarrow> fst ` set qs \<inter> fst ` set acc = {} \<Longrightarrow>
   (\<forall>q \<in> set qs. get_own ps (fst q) = snd (snd q)) \<Longrightarrow>
   fold (\<lambda>key result. put_own key (get_own ps key) result) (map fst qs) acc =
     acc @ map (\<lambda>q. (fst q, True, snd (snd q))) qs"
proof (induction qs arbitrary: acc)
  case Nil
  then show ?case by simp
next
  case (Cons q qs)
  have fresh: "fst q \<notin> fst ` set acc" using Cons.prems(2) by simp
  have val: "get_own ps (fst q) = snd (snd q)" using Cons.prems(3) by simp
  have step: "put_own (fst q) (get_own ps (fst q)) acc = acc @ [(fst q, True, snd (snd q))]"
    using put_own_fresh [OF fresh] val by simp
  have d: "distinct (map fst qs)" using Cons.prems(1) by simp
  have disj: "fst ` set qs \<inter> fst ` set (acc @ [(fst q, True, snd (snd q))]) = {}"
    using Cons.prems(1,2) by auto
  have vals: "\<forall>q \<in> set qs. get_own ps (fst q) = snd (snd q)" using Cons.prems(3) by simp
  have "fold (\<lambda>key result. put_own key (get_own ps key) result) (map fst qs)
          (acc @ [(fst q, True, snd (snd q))]) =
        (acc @ [(fst q, True, snd (snd q))]) @ map (\<lambda>q. (fst q, True, snd (snd q))) qs"
    by (rule Cons.IH [OF d disj vals])
  then show ?case using step by simp
qed

lemma get_own_first:
  "distinct (map fst ps) \<Longrightarrow> q \<in> set ps \<Longrightarrow> get_own ps (fst q) = snd (snd q)"
proof (induction ps)
  case Nil
  then show ?case by simp
next
  case (Cons p ps)
  obtain k e v where p: "p = (k, e, v)" by (cases p) auto
  show ?case
  proof (cases "q = p")
    case True
    then show ?thesis using p by simp
  next
    case False
    then have q: "q \<in> set ps" using Cons.prems(2) by simp
    then have "fst q \<in> fst ` set ps" by (rule imageI)
    then have "fst q \<noteq> k" using Cons.prems(1) p by auto
    then show ?thesis using Cons.IH q Cons.prems(1) p by simp
  qed
qed

lemma copy_all_distinct:
  assumes "distinct (map fst ps)"
  shows "fold (\<lambda>key result. put_own key (get_own ps key) result) (map fst ps) [] =
     map (\<lambda>q. (fst q, True, snd (snd q))) ps"
proof -
  have "\<forall>q \<in> set ps. get_own ps (fst q) = snd (snd q)"
    using get_own_first [OF assms] by blast
  then show ?thesis using copy_distinct [of ps "[]" ps] assms by simp
qed

text \<open>
  Claim C4. On an open connection \<open>send\<close> transmits the envelope of the event
  name and the prepared argument list, prepared once by \<open>prepareArgs\<close>.
  \<open>prepareArgs\<close> keeps the length and the order of the argument list.
  An argument that is an \<open>Error\<close> becomes a plain object with the same own
  property names, enumerable or not, each with the value the Error has for it
  (so \<open>message\<close>, \<open>stack\<close> and custom fields are all there); with the distinct
  keys of a JavaScript object the result is the property list itself, every
  property now enumerable. Every other argument is returned unchanged.
\<close>

theorem prepareArgs_errors_to_plain_mappings:
  "(\<forall>s. ws (fst w) = Some s \<and> ws_readyState (sockets (snd w) s) = OPEN \<longrightarrow>
      ws_sent (sockets (snd (snd (send eventName args w))) s) =
        ws_sent (sockets (snd w) s) @ [(eventName, prepareArgs args)]) \<and>
   length (prepareArgs args) = length args \<and>
   (\<forall>i < length args.
      if instanceof_Error (args ! i) then
        (\<exists>ps. prepareArgs args ! i = JObject PlainObject ps \<and>
              set (map fst ps) = set (getOwnPropertyNames (args ! i)) \<and>
              (\<forall>key. get_own ps key = get_own (own_props (args ! i)) key) \<and>
              (distinct (getOwnPropertyNames (args ! i)) \<longrightarrow>
                 ps = map (\<lambda>q. (fst q, True, snd (snd q))) (own_props (args ! i))))
      else prepareArgs args ! i = args ! i)"
proof -
  have one: "instanceof_Error arg \<Longrightarrow>
      (\<exists>ps. (if instanceof_Error arg then
                JObject PlainObject
                  (fold (\<lambda>key result. put_own key (get_own (own_props arg) key) result)
                     (getOwnPropertyNames arg) [])
              else arg) = JObject PlainObject ps \<and>
            set (map fst ps) = set (getOwnPropertyNames arg) \<and>
            (\<forall>key. get_own ps key = get_own (own_props arg) key) \<and>
            (distinct (getOwnPropertyNames arg) \<longrightarrow>
               ps = map (\<lambda>q. (fst q, True, snd (snd q))) (own_props arg)))" for arg
    by (simp add: getOwnPropertyNames_def get_own_copy keys_copy copy_all_distinct
          get_own_absent)
  have sent: "\<forall>s. ws (fst w) = Some s \<and> ws_readyState (sockets (snd w) s) = OPEN \<longrightarrow>
      ws_sent (sockets (snd (snd (send eventName args w))) s) =
        ws_sent (sockets (snd w) s) @ [(eventName, prepareArgs args)]"
    by (simp add: send_def split_beta Let_def env_fields)
  have rest: "length (prepareArgs args) = length args \<and>
   (\<forall>i < length args.
      if instanceof_Error (args ! i) then
        (\<exists>ps. prepareArgs args ! i = JObject PlainObject ps \<and>
              set (map fst ps) = set (getOwnPropertyNames (args ! i)) \<and>
              (\<forall>key. get_own ps key = get_own (own_props (args ! i)) key) \<and>
              (distinct (getOwnPropertyNames (args ! i)) \<longrightarrow>
                 ps = map (\<lambda>q. (fst q, True, snd (snd q))) (own_props (args ! i))))
      else prepareArgs args ! i = args ! i)"
    using one by (simp add: prepareArgs_def)
  from sent rest show ?thesis by (rule conjI)
qed

lemma prepareArgs_example:
  "prepareArgs example_args =
     [JObject PlainObject
        [(''message'', True, JString ''boom''), (''stack'', True, JString ''Error: boom''),
         (''code'', True, JNumber 7)],
      JString ''test title'', JObject PlainObject [(''title'', True, JString ''t'')]]"
  by (simp add: example_args_def prepareArgs_def getOwnPropertyNames_def)

theorem prepareArgs_witness:
  "ws (fst open_world) = Some 0 \<and>
   ws_readyState (sockets (snd open_world) 0) = OPEN \<and>
   ws_sent (sockets (snd (snd (send ''fail'' example_args open_world))) 0) =
     [(''fail'',
       [JObject PlainObject
          [(''message'', True, JString ''boom''), (''stack'', True, JString ''Error: boom''),
           (''code'', True, JNumber 7)],
        JString ''test title'', JObject PlainObject [(''title'', True, JString ''t'')]])]"
  using prepareArgs_errors_to_plain_mappings [of open_world "''fail''" example_args]
  by (simp add: open_world_fields prepareArgs_example)

subsection \<open>Reconnecting after a close event\<close>

lemma onClose_trace:
  "trace (snd (onClose code reason w)) =
     trace (snd w) @
     (if code \<noteq> 1000 \<and> autoRetry (config (fst w))
      then [SetTimeout (timer_seq (snd w)) (retryDelay (config (fst w)))] else []) @
     (if onDisconnected (config (fst w)) then [NotifyDisconnected code reason] else [])"
  by (simp add: onClose_def split_beta Let_def env_fields)

lemma onClose_timers:
  "timers (snd (onClose code reason w)) =
     timers (snd w) @
     (if code \<noteq> 1000 \<and> autoRetry (config (fst w))
      then [(timer_seq (snd w), retryDelay (config (fst w)))] else [])"
  by (simp add: onClose_def split_beta Let_def env_fields)

lemma onClose_client:
  "fst (onClose code reason w) =
     (if code \<noteq> 1000 \<and> autoRetry (config (fst w))
      then (fst w)\<lparr>ws := None, retryTimeout := Some (timer_seq (snd w))\<rparr>
      else (fst w)\<lparr>ws := None\<rparr>)"
  by (simp add: onClose_def split_beta Let_def env_fields)

lemma onClose_frame:
  "sockets (snd (onClose code reason w)) = sockets (snd w)"
  "socket_count (snd (onClose code reason w)) = socket_count (snd w)"
  "mochas (snd (onClose code reason w)) = mochas (snd w)"
  "mocha_count (snd (onClose code reason w)) = mocha_count (snd w)"
  "runner_count (snd (onClose code reason w)) = runner_count (snd w)"
  by (simp_all add: onClose_def split_beta Let_def env_fields)

text \<open>
  Claim C1. A close event handled by \<open>onClose\<close> with a code other than 1000,
  with \<open>autoRetry\<close> on, adds exactly one timer to the timer table, with the
  delay \<open>retryDelay\<close>, by exactly one \<open>setTimeout\<close> call, and stores its
  handle; with the code 1000, or with \<open>autoRetry\<close> off, the timer table, the
  \<open>setTimeout\<close> calls and the stored handle are as before. When the new timer
  fires, its callback connects: one new socket is created and becomes the
  client's connection, and the timer is no longer pending.
\<close>

theorem onClose_schedules_one_reconnect:
  "timers (snd (onClose code reason w)) =
     timers (snd w) @
     (if code \<noteq> 1000 \<and> autoRetry (config (fst w))
      then [(timer_seq (snd w), retryDelay (config (fst w)))] else []) \<and>
   scheduled (onClose code reason w) =
     scheduled w @
     (if code \<noteq> 1000 \<and> autoRetry (config (fst w))
      then [SetTimeout (timer_seq (snd w)) (retryDelay (config (fst w)))] else []) \<and>
   retryTimeout (fst (onClose code reason w)) =
     (if code \<noteq> 1000 \<and> autoRetry (config (fst w)) then Some (timer_seq (snd w))
      else retryTimeout (fst w)) \<and>
   (code \<noteq> 1000 \<and> autoRetry (config (fst w)) \<longrightarrow>
      fst (fire_timer (timer_seq (snd w)) (onClose code reason w)) = Inr () \<and>
      ws (fst (snd (fire_timer (timer_seq (snd w)) (onClose code reason w)))) =
        Some (socket_count (snd w)) \<and>
      socket_count (snd (snd (fire_timer (timer_seq (snd w)) (onClose code reason w)))) =
        Suc (socket_count (snd w)) \<and>
      timer_seq (snd w) \<notin>
        fst ` set (timers (snd (snd (fire_timer (timer_seq (snd w)) (onClose code reason w))))))"
proof -
  let ?w' = "onClose code reason w"
  let ?t = "timer_seq (snd w)"
  have a: "timers (snd ?w') =
     timers (snd w) @
     (if code \<noteq> 1000 \<and> autoRetry (config (fst w))
      then [(?t, retryDelay (config (fst w)))] else [])"
    by (rule onClose_timers)
  have b: "scheduled ?w' =
     scheduled w @
     (if code \<noteq> 1000 \<and> autoRetry (config (fst w))
      then [SetTimeout ?t (retryDelay (config (fst w)))] else [])"
    by (simp add: scheduled_def onClose_trace)
  have c: "retryTimeout (fst ?w') =
     (if code \<noteq> 1000 \<and> autoRetry (config (fst w)) then Some ?t else retryTimeout (fst w))"
    by (simp add: onClose_client)
  have d: "fst (fire_timer ?t ?w') = Inr () \<and>
      ws (fst (snd (fire_timer ?t ?w'))) = Some (socket_count (snd w)) \<and>
      socket_count (snd (snd (fire_timer ?t ?w'))) = Suc (socket_count (snd w)) \<and>
      ?t \<notin> fst ` set (timers (snd (snd (fire_timer ?t ?w'))))"
    if retry: "code \<noteq> 1000 \<and> autoRetry (config (fst w))"
  proof -
    let ?fired = "(fst ?w', (snd ?w')\<lparr>timers := filter (\<lambda>p. fst p \<noteq> ?t) (timers (snd ?w'))\<rparr>)"
    have pending: "?t \<in> fst ` set (timers (snd ?w'))"
      using retry by (simp add: a)
    have fire: "fire_timer ?t ?w' = connect None ?fired"
      using pending by (simp add: fire_timer_def split_beta)
    have free: "ws (fst ?fired) = None"
      by (simp add: onClose_client)
    have gone: "?t \<notin> fst ` set (timers (snd (snd (connect None ?fired))))"
      by (auto simp: connect_ok(4) [OF free] split: option.splits)
    show ?thesis
      unfolding fire
      using gone by (simp add: connect_ok(1,2,3) [OF free] onClose_frame)
  qed
  from a b c d show ?thesis by blast
qed

theorem onClose_witness:
  "timers (snd (onClose 1006 ''gone'' connected_world)) = [(0, 500)] \<and>
   timers (snd (onClose 1000 ''bye'' connected_world)) = [] \<and>
   ws (fst (snd (fire_timer 0 (onClose 1006 ''gone'' connected_world)))) = Some 1"
  using onClose_schedules_one_reconnect [of 1006 "''gone''" connected_world]
        onClose_schedules_one_reconnect [of 1000 "''bye''" connected_world]
  by (simp add: connected_world_fields example_config_fields)

subsection \<open>Misuse of connect and send\<close>

text \<open>
  Claim C2. \<open>connect\<close> on a client that holds a connection throws the error
  \<open>Already connected\<close>, and \<open>send\<close> on a client whose connection is missing
  or not open throws the error \<open>Cannot send <eventName> WebSocket is closed\<close>; in
  both cases the world after the call is the world before it: the stored
  connection, the timer handle, the instrumented instance and every collaborator
  are untouched, and no call or notification was made. Otherwise neither call fails.
\<close>

theorem misuse_fails_without_effect:
  "(ws (fst w) \<noteq> None \<longrightarrow> connect fn w = (Inl (JsError ''Already connected''), w)) \<and>
   (\<not> connection_open w \<longrightarrow>
      send eventName args w =
        (Inl (JsError (''Cannot send '' @ eventName @ '' WebSocket is closed'')), w)) \<and>
   (connection_open w \<longrightarrow> fst (send eventName args w) = Inr ()) \<and>
   (ws (fst w) = None \<longrightarrow> fst (connect fn w) = Inr ())"
  by (auto simp: connect_refused connect_ok send_def connection_open_def Let_def split_beta
           split: option.splits)

theorem misuse_witness:
  "ws (fst connected_world) = Some 0 \<and>
   connect None connected_world = (Inl (JsError ''Already connected''), connected_world) \<and>
   \<not> connection_open connected_world \<and>
   send ''pass'' example_args connected_world =
     (Inl (JsError ''Cannot send pass WebSocket is closed''), connected_world) \<and>
   \<not> connection_open example_world \<and>
   send ''fail'' [] example_world =
     (Inl (JsError ''Cannot send fail WebSocket is closed''), example_world) \<and>
   fst (connect None example_world) = Inr () \<and>
   connection_open open_world \<and>
   fst (send ''pass'' example_args open_world) = Inr ()"
  using misuse_fails_without_effect [of connected_world None "''pass''" example_args]
        misuse_fails_without_effect [of example_world None "''fail''" "[]"]
        misuse_fails_without_effect [of open_world None "''pass''" example_args]
  by (simp add: connected_world_fields example_world_fields open_world_fields
        connection_open_def)

subsection \<open>send, and what an emitted event does\<close>

lemma sent_frames_fields:
  "websocket_defined (sent_frames s fs e) = websocket_defined e"
  "transport_kind (sent_frames s fs e) = transport_kind e"
  "socket_count (sent_frames s fs e) = socket_count e"
  "timers (sent_frames s fs e) = timers e"
  "timer_seq (sent_frames s fs e) = timer_seq e"
  "mochas (sent_frames s fs e) = mochas e"
  "mocha_count (sent_frames s fs e) = mocha_count e"
  "runner_listeners (sent_frames s fs e) = runner_listeners e"
  "runner_count (sent_frames s fs e) = runner_count e"
  "trace (sent_frames s fs e) = trace e @ map (\<lambda>f. WsSend s (fst f) (snd f)) fs"
  "sockets (sent_frames s fs e) =
     (sockets e)(s := (sockets e s)\<lparr>ws_sent := ws_sent (sockets e s) @ fs\<rparr>)"
  unfolding sent_frames_def
  by (induction fs arbitrary: e; simp add: env_fields)+

lemma sent_frames_socket:
  "ws_listeners (sockets (sent_frames s fs e) s') = ws_listeners (sockets e s')"
  "ws_readyState (sockets (sent_frames s fs e) s') = ws_readyState (sockets e s')"
  "ws_sent (sockets (sent_frames s fs e) s) = ws_sent (sockets e s) @ fs"
  by (simp_all add: sent_frames_fields)

lemma sent_frames_Nil: "sent_frames s [] e = e"
  by (simp add: sent_frames_def)

lemma sent_frames_append:
  "sent_frames s (fs @ gs) e = sent_frames s gs (sent_frames s fs e)"
  by (simp add: sent_frames_def)

lemma send_closed:
  "\<not> connection_open w \<Longrightarrow>
   send eventName args w =
     (Inl (JsError (''Cannot send '' @ eventName @ '' WebSocket is closed'')), w)"
  by (auto simp: send_def connection_open_def split_beta split: option.splits)

lemma send_open:
  "ws (fst w) = Some s \<Longrightarrow> ws_readyState (sockets (snd w) s) = OPEN \<Longrightarrow>
   send eventName args w =
     (Inr (), (fst w, sent_frames s [(eventName, prepareArgs args)] (snd w)))"
  by (simp add: send_def split_beta Let_def sent_frames_def)

lemma connection_open_sent:
  "connection_open (c, sent_frames s fs e) = connection_open (c, e)"
  by (simp add: connection_open_def sent_frames_socket split: option.splits)

lemma call_listeners_open:
  "ws (fst w) = Some s \<Longrightarrow> ws_readyState (sockets (snd w) s) = OPEN \<Longrightarrow>
   call_listeners ls args w =
     (Inr (), (fst w, sent_frames s (map (\<lambda>l. (snd l, prepareArgs args)) ls) (snd w)))"
proof (induction ls arbitrary: w)
  case Nil
  then show ?case by (simp add: sent_frames_Nil)
next
  case (Cons l ls)
  let ?w' = "(fst w, sent_frames s [(snd l, prepareArgs args)] (snd w))"
  have step: "send (snd l) args w = (Inr (), ?w')"
    by (rule send_open [OF Cons.prems])
  have a: "ws (fst ?w') = Some s" using Cons.prems(1) by simp
  have b: "ws_readyState (sockets (snd ?w') s) = OPEN"
    using Cons.prems(2) by (simp add: sent_frames_socket)
  have "call_listeners (l # ls) args w = call_listeners ls args ?w'"
    by (simp add: step)
  also have "\<dots> =
      (Inr (), (fst ?w', sent_frames s (map (\<lambda>l. (snd l, prepareArgs args)) ls) (snd ?w')))"
    by (rule Cons.IH [OF a b])
  finally show ?case
    using sent_frames_append [of s "[(snd l, prepareArgs args)]"
            "map (\<lambda>l. (snd l, prepareArgs args)) ls" "snd w"]
    by simp
qed

lemma call_listeners_closed:
  "\<not> connection_open w \<Longrightarrow>
   call_listeners ls args w =
     (case ls of
        [] \<Rightarrow> (Inr (), w)
      | l # ls' \<Rightarrow> (Inl (JsError (''Cannot send '' @ snd l @ '' WebSocket is closed'')), w))"
  by (cases ls) (simp_all add: send_closed)

lemma emit_all_open:
  "ws (fst w) = Some s \<Longrightarrow> ws_readyState (sockets (snd w) s) = OPEN \<Longrightarrow>
   emit_all r evs w =
     (Inr (), (fst w, sent_frames s (listener_frames (runner_listeners (snd w) r) evs) (snd w)))"
proof (induction evs arbitrary: w)
  case Nil
  then show ?case by (simp add: listener_frames_def sent_frames_Nil)
next
  case (Cons ev evs)
  let ?ls = "runner_listeners (snd w) r"
  let ?fs = "map (\<lambda>l. (snd l, prepareArgs (snd ev))) (filter (\<lambda>l. fst l = fst ev) ?ls)"
  let ?w' = "(fst w, sent_frames s ?fs (snd w))"
  have step: "runner_emit r (fst ev) (snd ev) w = (Inr (), ?w')"
    unfolding runner_emit_def by (rule call_listeners_open [OF Cons.prems])
  have a: "ws (fst ?w') = Some s" using Cons.prems(1) by simp
  have b: "ws_readyState (sockets (snd ?w') s) = OPEN"
    using Cons.prems(2) by (simp add: sent_frames_socket)
  have "emit_all r (ev # evs) w = emit_all r evs ?w'"
    by (simp add: step)
  also have "\<dots> =
      (Inr (), (fst ?w', sent_frames s (listener_frames (runner_listeners (snd ?w') r) evs) (snd ?w')))"
    by (rule Cons.IH [OF a b])
  finally show ?case
    using sent_frames_append [of s ?fs "listener_frames ?ls evs" "snd w"]
    by (simp add: listener_frames_def sent_frames_fields)
qed

text \<open>Without an open connection the first emitted event that has a listener
  throws, and nothing has changed by then.\<close>

lemma emit_all_closed:
  "\<not> connection_open w \<Longrightarrow>
   emit_all r evs w =
     (case listener_frames (runner_listeners (snd w) r) evs of
        [] \<Rightarrow> (Inr (), w)
      | f # fs \<Rightarrow> (Inl (JsError (''Cannot send '' @ fst f @ '' WebSocket is closed'')), w))"
proof (induction evs)
  case Nil
  then show ?case by (simp add: listener_frames_def)
next
  case (Cons ev evs)
  show ?case
  proof (cases "filter (\<lambda>l. fst l = fst ev) (runner_listeners (snd w) r)")
    case Nil
    then have "runner_emit r (fst ev) (snd ev) w = (Inr (), w)"
      by (simp add: runner_emit_def)
    then show ?thesis
      using Cons Nil by (simp add: listener_frames_def)
  next
    case (Cons l ls)
    then have "runner_emit r (fst ev) (snd ev) w =
        (Inl (JsError (''Cannot send '' @ snd l @ '' WebSocket is closed'')), w)"
      using Cons.prems call_listeners_closed [of w "l # ls" "snd ev"]
      by (simp add: runner_emit_def)
    then show ?thesis
      using Cons by (simp add: listener_frames_def)
  qed
qed

text \<open>Whatever the connection, emitted events only transmit frames on the stored
  connection.\<close>

lemma emit_all_world:
  "\<exists>fs. snd (emit_all r evs w) =
     (fst w, case ws (fst w) of Some s \<Rightarrow> sent_frames s fs (snd w) | None \<Rightarrow> snd w)"
proof (cases "connection_open w")
  case True
  then obtain s where s: "ws (fst w) = Some s" "ws_readyState (sockets (snd w) s) = OPEN"
    by (auto simp: connection_open_def split: option.splits)
  show ?thesis
    using emit_all_open [OF s, of r evs] s(1) by auto
next
  case False
  have "snd (emit_all r evs w) = w"
    by (simp add: emit_all_closed [OF False] split: list.splits)
  then have "snd (emit_all r evs w) =
     (fst w, case ws (fst w) of Some s \<Rightarrow> sent_frames s [] (snd w) | None \<Rightarrow> snd w)"
    by (simp add: sent_frames_Nil split: option.splits)
  then show ?thesis by blast
qed

lemma runner_emit_world:
  "\<exists>fs. snd (runner_emit r name args w) =
     (fst w, case ws (fst w) of Some s \<Rightarrow> sent_frames s fs (snd w) | None \<Rightarrow> snd w)"
  using emit_all_world [of r "[(name, args)]" w]
  by (simp split: prod.splits sum.splits)

subsection \<open>instrument, Mocha's run, run and getMocha, part by part\<close>

lemma instrument_result:
  "fst (instrument m w) = m"
  "fst (snd (instrument m w)) = (fst w)\<lparr>instrumentedMocha := Some m\<rparr>"
  "mochas (snd (snd (instrument m w))) =
     (mochas (snd w))(m := (mochas (snd w) m)
        \<lparr>m_originalRun := Some (m_run (mochas (snd w) m)), m_run := GuardRun,
         m_reporter := WarnReporter\<rparr>)"
  "trace (snd (snd (instrument m w))) =
     trace (snd w) @ (if onInstrumented (config (fst w)) then [NotifyInstrumented m] else [])"
  by (simp_all add: instrument_def split_beta Let_def env_fields)

lemma instrument_frame:
  "websocket_defined (snd (snd (instrument m w))) = websocket_defined (snd w)"
  "transport_kind (snd (snd (instrument m w))) = transport_kind (snd w)"
  "sockets (snd (snd (instrument m w))) = sockets (snd w)"
  "socket_count (snd (snd (instrument m w))) = socket_count (snd w)"
  "timers (snd (snd (instrument m w))) = timers (snd w)"
  "timer_seq (snd (snd (instrument m w))) = timer_seq (snd w)"
  "mocha_count (snd (snd (instrument m w))) = mocha_count (snd w)"
  "runner_listeners (snd (snd (instrument m w))) = runner_listeners (snd w)"
  "runner_count (snd (snd (instrument m w))) = runner_count (snd w)"
  by (simp_all add: instrument_def split_beta Let_def env_fields)

lemma instrument_connection [simp]:
  "connection_open (snd (instrument m w)) = connection_open w"
  by (simp add: connection_open_def instrument_result instrument_frame split: option.splits)

lemma fold_snoc: "fold (\<lambda>x ls. ls @ [(x, x)]) xs acc = acc @ map (\<lambda>x. (x, x)) xs"
  by (induction xs arbitrary: acc) simp_all

lemma reporter_installed_fields:
  "fst (reporter_installed m w) = fst w"
  "mochas (snd (reporter_installed m w)) =
     (mochas (snd w))(m := (mochas (snd w) m)\<lparr>m_reporter_class := RemoteReporter\<rparr>)"
  "websocket_defined (snd (reporter_installed m w)) = websocket_defined (snd w)"
  "transport_kind (snd (reporter_installed m w)) = transport_kind (snd w)"
  "sockets (snd (reporter_installed m w)) = sockets (snd w)"
  "socket_count (snd (reporter_installed m w)) = socket_count (snd w)"
  "timers (snd (reporter_installed m w)) = timers (snd w)"
  "timer_seq (snd (reporter_installed m w)) = timer_seq (snd w)"
  "mocha_count (snd (reporter_installed m w)) = mocha_count (snd w)"
  "runner_listeners (snd (reporter_installed m w)) = runner_listeners (snd w)"
  "runner_count (snd (reporter_installed m w)) = runner_count (snd w)"
  "trace (snd (reporter_installed m w)) = trace (snd w)"
  by (simp_all add: reporter_installed_def)

lemma reporter_installed_connection [simp]:
  "connection_open (reporter_installed m w) = connection_open w"
  by (simp add: connection_open_def reporter_installed_fields split: option.splits)

lemma new_runner_fields:
  "fst (new_runner m w) = fst w"
  "runner_count (snd (new_runner m w)) = Suc (runner_count (snd w))"
  "runner_listeners (snd (new_runner m w)) =
     (runner_listeners (snd w))(runner_count (snd w) :=
        (case m_reporter_class (mochas (snd w) m) of
           RemoteReporter \<Rightarrow> map (\<lambda>n. (n, n)) MOCHA_EVENT_NAMES
         | DefaultReporter \<Rightarrow> []))"
  "trace (snd (new_runner m w)) = trace (snd w) @ [MochaRun m (runner_count (snd w))]"
  "mochas (snd (new_runner m w)) = mochas (snd w)"
  "mocha_count (snd (new_runner m w)) = mocha_count (snd w)"
  "websocket_defined (snd (new_runner m w)) = websocket_defined (snd w)"
  "transport_kind (snd (new_runner m w)) = transport_kind (snd w)"
  "sockets (snd (new_runner m w)) = sockets (snd w)"
  "socket_count (snd (new_runner m w)) = socket_count (snd w)"
  "timers (snd (new_runner m w)) = timers (snd w)"
  "timer_seq (snd (new_runner m w)) = timer_seq (snd w)"
  by (simp_all add: new_runner_def remote_reporter_def split_beta Let_def env_fields fold_snoc
        split: reporter_class.splits)

lemma new_runner_connection [simp]:
  "connection_open (new_runner m w) = connection_open w"
  by (simp add: connection_open_def new_runner_fields split: option.splits)

text \<open>The listeners of the client's reporter send one frame for every emitted
  event that carries a lifecycle event name.\<close>

lemma filter_named:
  "distinct ns \<Longrightarrow>
   filter (\<lambda>l. fst l = x) (map (\<lambda>n. (n, n)) ns) = (if x \<in> set ns then [(x, x)] else [])"
  by (induction ns) auto

lemma distinct_MOCHA_EVENT_NAMES: "distinct MOCHA_EVENT_NAMES"
  by (simp add: MOCHA_EVENT_NAMES_def)

lemma listener_frames_reporter:
  "listener_frames (map (\<lambda>n. (n, n)) MOCHA_EVENT_NAMES) evs = reporter_frames evs"
  by (induction evs)
     (simp_all add: listener_frames_def reporter_frames_def
        filter_named [OF distinct_MOCHA_EVENT_NAMES])

lemma listener_frames_none: "listener_frames [] evs = []"
  by (induction evs) (simp_all add: listener_frames_def)

text \<open>Mocha's own run\<close>

lemma snd_rethrow:
  "snd (case x of (Inl err, w') \<Rightarrow> (Inl err, w') | (Inr u, w') \<Rightarrow> (Inr (f u), w')) = snd x"
  by (cases x; cases "fst x") auto

lemma mocha_run_open:
  assumes "ws (fst w) = Some s" and "ws_readyState (sockets (snd w) s) = OPEN"
  shows "mocha_run m w =
     (Inr (runner_count (snd w)),
      (fst w,
       sent_frames s
         (listener_frames (runner_listeners (snd (new_runner m w)) (runner_count (snd w)))
            (m_emits (mochas (snd w) m)))
         (snd (new_runner m w))))"
proof -
  have a: "ws (fst (new_runner m w)) = Some s"
    using assms(1) by (simp add: new_runner_fields)
  have b: "ws_readyState (sockets (snd (new_runner m w)) s) = OPEN"
    using assms(2) by (simp add: new_runner_fields)
  show ?thesis
    by (simp add: mocha_run_def Let_def emit_all_open [OF a b] new_runner_fields)
qed

lemma mocha_run_closed:
  assumes "\<not> connection_open w"
  shows "mocha_run m w =
     (case listener_frames (runner_listeners (snd (new_runner m w)) (runner_count (snd w)))
             (m_emits (mochas (snd w) m)) of
        [] \<Rightarrow> (Inr (runner_count (snd w)), new_runner m w)
      | f # fs \<Rightarrow>
          (Inl (JsError (''Cannot send '' @ fst f @ '' WebSocket is closed'')), new_runner m w))"
proof -
  have c: "\<not> connection_open (new_runner m w)" using assms by simp
  show ?thesis
    by (simp add: mocha_run_def Let_def emit_all_closed [OF c] new_runner_fields
          split: list.splits)
qed

lemma mocha_run_world:
  "\<exists>fs. snd (mocha_run m w) =
     (fst w, case ws (fst w) of
               Some s \<Rightarrow> sent_frames s fs (snd (new_runner m w))
             | None \<Rightarrow> snd (new_runner m w))"
proof -
  obtain fs where "snd (emit_all (runner_count (snd w)) (m_emits (mochas (snd (new_runner m w)) m))
                     (new_runner m w)) =
     (fst (new_runner m w), case ws (fst (new_runner m w)) of
               Some s \<Rightarrow> sent_frames s fs (snd (new_runner m w))
             | None \<Rightarrow> snd (new_runner m w))"
    using emit_all_world by blast
  then have "snd (mocha_run m w) =
     (fst w, case ws (fst w) of
               Some s \<Rightarrow> sent_frames s fs (snd (new_runner m w))
             | None \<Rightarrow> snd (new_runner m w))"
    by (simp add: mocha_run_def Let_def new_runner_fields snd_rethrow)
  then show ?thesis by blast
qed

text \<open>run through the client, by what originalRun holds\<close>

lemma run_guard:
  assumes "m_originalRun (mochas (snd w) m) = Some GuardRun"
  shows "run m w =
     (Inl (JsError ''This Mocha instance is instrumented by mocha-remote-client, use the server to run tests''),
      reporter_installed m w)"
  using assms by (simp add: run_def split_beta Let_def reporter_installed_def)

lemma run_undefined:
  assumes "m_originalRun (mochas (snd w) m) = None"
  shows "run m w =
     (Inl (JsTypeError ''mocha.originalRun is not a function''), reporter_installed m w)"
  using assms by (simp add: run_def split_beta Let_def reporter_installed_def)

lemma run_native:
  assumes "m_originalRun (mochas (snd w) m) = Some NativeRun"
  shows "run m w =
     (case mocha_run m (reporter_installed m w) of
        (Inl err, w2) \<Rightarrow> (Inl err, w2)
      | (Inr runner, w2) \<Rightarrow>
          (Inr runner,
           (fst w2, if onRunning (config (fst w2)) then log (NotifyRunning runner) (snd w2)
                    else snd w2)))"
  using assms
  by (simp add: run_def split_beta Let_def reporter_installed_def split: sum.splits prod.splits)

lemma run_cases:
  obtains (native) "m_originalRun (mochas (snd w) m) = Some NativeRun"
        | (guard) "m_originalRun (mochas (snd w) m) = Some GuardRun"
        | (undefined) "m_originalRun (mochas (snd w) m) = None"
  by (cases "m_originalRun (mochas (snd w) m)") (auto intro: run_impl.exhaust)

lemma run_native_open:
  assumes "m_originalRun (mochas (snd w) m) = Some NativeRun"
    and "ws (fst w) = Some s" and "ws_readyState (sockets (snd w) s) = OPEN"
  shows "run m w =
     (Inr (runner_count (snd w)),
      (fst w,
       if onRunning (config (fst w))
       then log (NotifyRunning (runner_count (snd w)))
              (sent_frames s (reporter_frames (m_emits (mochas (snd w) m)))
                 (snd (new_runner m (reporter_installed m w))))
       else sent_frames s (reporter_frames (m_emits (mochas (snd w) m)))
              (snd (new_runner m (reporter_installed m w)))))"
proof -
  have a: "ws (fst (reporter_installed m w)) = Some s"
    using assms(2) by (simp add: reporter_installed_fields)
  have b: "ws_readyState (sockets (snd (reporter_installed m w)) s) = OPEN"
    using assms(3) by (simp add: reporter_installed_fields)
  show ?thesis
    by (simp add: run_native [OF assms(1)] mocha_run_open [OF a b] new_runner_fields
          reporter_installed_fields listener_frames_reporter)
qed

lemma run_native_closed:
  assumes "m_originalRun (mochas (snd w) m) = Some NativeRun" and "\<not> connection_open w"
  shows "run m w =
     (case reporter_frames (m_emits (mochas (snd w) m)) of
        [] \<Rightarrow>
          (Inr (runner_count (snd w)),
           (fst w,
            if onRunning (config (fst w))
            then log (NotifyRunning (runner_count (snd w)))
                   (snd (new_runner m (reporter_installed m w)))
            else snd (new_runner m (reporter_installed m w))))
      | f # fs \<Rightarrow>
          (Inl (JsError (''Cannot send '' @ fst f @ '' WebSocket is closed'')),
           new_runner m (reporter_installed m w)))"
proof -
  have c: "\<not> connection_open (reporter_installed m w)" using assms(2) by simp
  show ?thesis
    by (simp add: run_native [OF assms(1)] mocha_run_closed [OF c] new_runner_fields
          reporter_installed_fields listener_frames_reporter split: list.splits)
qed

text \<open>Whatever happens, run changes the world in one of these ways only.\<close>

lemma fold_log_fields:
  "websocket_defined (fold log ns e) = websocket_defined e"
  "transport_kind (fold log ns e) = transport_kind e"
  "sockets (fold log ns e) = sockets e"
  "socket_count (fold log ns e) = socket_count e"
  "timers (fold log ns e) = timers e"
  "timer_seq (fold log ns e) = timer_seq e"
  "mochas (fold log ns e) = mochas e"
  "mocha_count (fold log ns e) = mocha_count e"
  "runner_listeners (fold log ns e) = runner_listeners e"
  "runner_count (fold log ns e) = runner_count e"
  "trace (fold log ns e) = trace e @ ns"
  by (induction ns arbitrary: e; simp add: env_fields)+

lemma run_shape:
  "\<exists>fs ns E.
     (E = snd (reporter_installed m w) \<or> E = snd (new_runner m (reporter_installed m w))) \<and>
     (\<forall>n \<in> set ns. n = NotifyRunning (runner_count (snd w))) \<and>
     snd (run m w) =
       (fst w, fold log ns (case ws (fst w) of Some s \<Rightarrow> sent_frames s fs E | None \<Rightarrow> E))"
proof (cases rule: run_cases [of w m])
  case native
  let ?w1 = "reporter_installed m w"
  obtain fs where fs: "snd (mocha_run m ?w1) =
     (fst ?w1, case ws (fst ?w1) of
                 Some s \<Rightarrow> sent_frames s fs (snd (new_runner m ?w1))
               | None \<Rightarrow> snd (new_runner m ?w1))"
    using mocha_run_world by blast
  let ?E = "snd (new_runner m ?w1)"
  let ?X = "case ws (fst w) of Some s \<Rightarrow> sent_frames s fs ?E | None \<Rightarrow> ?E"
  have m: "snd (mocha_run m ?w1) = (fst w, ?X)"
    using fs by (simp add: reporter_installed_fields)
  obtain res where res: "mocha_run m ?w1 = (res, (fst w, ?X))"
    using m by (cases "mocha_run m ?w1") auto
  show ?thesis
  proof (cases res)
    case (Inl err)
    then have "snd (run m w) = (fst w, fold log [] ?X)"
      by (simp add: run_native [OF native] res)
    then show ?thesis by (intro exI [of _ fs] exI [of _ "[]"] exI [of _ ?E]) simp
  next
    case (Inr r)
    have r: "r = runner_count (snd w)"
    proof (cases "connection_open ?w1")
      case True
      then obtain s where "ws (fst ?w1) = Some s" "ws_readyState (sockets (snd ?w1) s) = OPEN"
        by (auto simp: connection_open_def split: option.splits)
      from mocha_run_open [OF this, of m] res Inr show ?thesis
        by (simp add: reporter_installed_fields)
    next
      case False
      from mocha_run_closed [OF this, of m] res Inr show ?thesis
        by (simp add: reporter_installed_fields split: list.splits)
    qed
    show ?thesis
    proof (cases "onRunning (config (fst w))")
      case True
      then have "snd (run m w) = (fst w, fold log [NotifyRunning (runner_count (snd w))] ?X)"
        by (simp add: run_native [OF native] res Inr r)
      then show ?thesis
        by (intro exI [of _ fs] exI [of _ "[NotifyRunning (runner_count (snd w))]"]
              exI [of _ ?E]) simp
    next
      case False
      then have "snd (run m w) = (fst w, fold log [] ?X)"
        by (simp add: run_native [OF native] res Inr r)
      then show ?thesis by (intro exI [of _ fs] exI [of _ "[]"] exI [of _ ?E]) simp
    qed
  qed
next
  case guard
  have "snd (run m w) =
      (fst w, fold log [] (case ws (fst w) of
                 Some s \<Rightarrow> sent_frames s [] (snd (reporter_installed m w))
               | None \<Rightarrow> snd (reporter_installed m w)))"
    by (simp add: run_guard [OF guard] sent_frames_Nil reporter_installed_def
          split: option.splits)
  then show ?thesis
    by (intro exI [of _ "[]"] exI [of _ "[]"] exI [of _ "snd (reporter_installed m w)"]) simp
next
  case undefined
  have "snd (run m w) =
      (fst w, fold log [] (case ws (fst w) of
                 Some s \<Rightarrow> sent_frames s [] (snd (reporter_installed m w))
               | None \<Rightarrow> snd (reporter_installed m w)))"
    by (simp add: run_undefined [OF undefined] sent_frames_Nil reporter_installed_def
          split: option.splits)
  then show ?thesis
    by (intro exI [of _ "[]"] exI [of _ "[]"] exI [of _ "snd (reporter_installed m w)"]) simp
qed

lemma run_shapeE:
  obtains fs ns E where
    "E = snd (reporter_installed m w) \<or> E = snd (new_runner m (reporter_installed m w))"
    and "\<forall>n \<in> set ns. n = NotifyRunning (runner_count (snd w))"
    and "snd (run m w) =
       (fst w, fold log ns (case ws (fst w) of Some s \<Rightarrow> sent_frames s fs E | None \<Rightarrow> E))"
  using run_shape [of m w] by (elim exE conjE) (rule that)

lemma run_client: "fst (snd (run m w)) = fst w"
  by (rule run_shapeE [of m w]) simp

lemma run_frame:
  "websocket_defined (snd (snd (run m w))) = websocket_defined (snd w)"
  "transport_kind (snd (snd (run m w))) = transport_kind (snd w)"
  "socket_count (snd (snd (run m w))) = socket_count (snd w)"
  "timers (snd (snd (run m w))) = timers (snd w)"
  "timer_seq (snd (snd (run m w))) = timer_seq (snd w)"
  "mocha_count (snd (snd (run m w))) = mocha_count (snd w)"
  "ws_listeners (sockets (snd (snd (run m w))) s') = ws_listeners (sockets (snd w) s')"
  "ws_readyState (sockets (snd (snd (run m w))) s') = ws_readyState (sockets (snd w) s')"
proof -
  obtain fs ns E where
    E: "E = snd (reporter_installed m w) \<or> E = snd (new_runner m (reporter_installed m w))"
    and ns: "\<forall>n \<in> set ns. n = NotifyRunning (runner_count (snd w))"
    and r: "snd (run m w) =
       (fst w, fold log ns (case ws (fst w) of Some s \<Rightarrow> sent_frames s fs E | None \<Rightarrow> E))"
    by (rule run_shapeE)
  have e: "websocket_defined E = websocket_defined (snd w)"
    "transport_kind E = transport_kind (snd w)"
    "socket_count E = socket_count (snd w)"
    "timers E = timers (snd w)"
    "timer_seq E = timer_seq (snd w)"
    "mocha_count E = mocha_count (snd w)"
    "sockets E = sockets (snd w)"
    using E by (auto simp: new_runner_fields reporter_installed_fields)
  show "websocket_defined (snd (snd (run m w))) = websocket_defined (snd w)"
    "transport_kind (snd (snd (run m w))) = transport_kind (snd w)"
    "socket_count (snd (snd (run m w))) = socket_count (snd w)"
    "timers (snd (snd (run m w))) = timers (snd w)"
    "timer_seq (snd (snd (run m w))) = timer_seq (snd w)"
    "mocha_count (snd (snd (run m w))) = mocha_count (snd w)"
    "ws_listeners (sockets (snd (snd (run m w))) s') = ws_listeners (sockets (snd w) s')"
    "ws_readyState (sockets (snd (snd (run m w))) s') = ws_readyState (sockets (snd w) s')"
    by (cases "ws (fst w)"; simp add: r fold_log_fields sent_frames_fields e)+
qed

lemma run_disconnected_notes:
  "disconnected_notes (snd (run m w)) = disconnected_notes w"
proof -
  obtain fs ns E where
    E: "E = snd (reporter_installed m w) \<or> E = snd (new_runner m (reporter_installed m w))"
    and ns: "\<forall>n \<in> set ns. n = NotifyRunning (runner_count (snd w))"
    and r: "snd (run m w) =
       (fst w, fold log ns (case ws (fst w) of Some s \<Rightarrow> sent_frames s fs E | None \<Rightarrow> E))"
    by (rule run_shapeE)
  have a: "filter is_NotifyDisconnected ns = []"
    using ns by (auto simp: filter_empty_conv)
  have b: "filter is_NotifyDisconnected (map (\<lambda>f. WsSend s (fst f) (snd f)) fs) = []" for s
    by (induction fs) simp_all
  have c: "filter is_NotifyDisconnected (trace E) = filter is_NotifyDisconnected (trace (snd w))"
    using E by (auto simp: new_runner_fields reporter_installed_fields)
  show ?thesis
    by (simp add: disconnected_notes_def r fold_log_fields sent_frames_fields a b c
          split: option.splits)
qed

text \<open>Mocha's run called directly\<close>

lemma direct_run_guard:
  "m_run (mochas (snd w) m) = GuardRun \<Longrightarrow>
   direct_run m w =
     (Inl (JsError ''This Mocha instance is instrumented by mocha-remote-client, use the server to run tests''), w)"
  by (simp add: direct_run_def)

lemma direct_run_shape:
  "snd (direct_run m w) = w \<or>
   (\<exists>fs. snd (direct_run m w) =
      (fst w, case ws (fst w) of
                Some s \<Rightarrow> sent_frames s fs (snd (new_runner m w))
              | None \<Rightarrow> snd (new_runner m w)))"
proof (cases "m_run (mochas (snd w) m)")
  case NativeRun
  then show ?thesis using mocha_run_world [of m w] by (simp add: direct_run_def)
next
  case GuardRun
  then show ?thesis by (simp add: direct_run_guard)
qed

lemma direct_run_frame:
  "fst (snd (direct_run m w)) = fst w"
  "timers (snd (snd (direct_run m w))) = timers (snd w)"
  "ws_listeners (sockets (snd (snd (direct_run m w))) s') = ws_listeners (sockets (snd w) s')"
  "ws_readyState (sockets (snd (snd (direct_run m w))) s') = ws_readyState (sockets (snd w) s')"
  using direct_run_shape [of m w]
  by (auto simp: sent_frames_fields new_runner_fields split: option.splits)

lemma direct_run_disconnected_notes:
  "disconnected_notes (snd (direct_run m w)) = disconnected_notes w"
proof -
  have b: "filter is_NotifyDisconnected (map (\<lambda>f. WsSend s (fst f) (snd f)) fs) = []" for s fs
    by (induction fs) simp_all
  show ?thesis
    using direct_run_shape [of m w]
    by (auto simp: disconnected_notes_def sent_frames_fields new_runner_fields b
             split: option.splits)
qed

text \<open>getMocha and the factory\<close>

lemma truncate_fields:
  "mochaOptions (config_data.truncate cfg) = mochaOptions cfg"
  "autoConnect (config_data.truncate cfg) = autoConnect cfg"
  "url (config_data.truncate cfg) = url cfg"
  by (simp_all add: config_data.truncate_def)

lemma default_createMocha_result:
  "fst (default_createMocha cfg h) = snd h"
  "fst (snd (default_createMocha cfg h)) = (fst h)(snd h := new_Mocha (mochaOptions cfg))"
  "snd (snd (default_createMocha cfg h)) = Suc (snd h)"
  by (simp_all add: default_createMocha_def)

lemma getMocha_stored:
  "instrumentedMocha (fst w) = Some m \<Longrightarrow> getMocha w = (m, w)"
  by (simp add: getMocha_def split_beta)

lemma getMocha_created:
  "instrumentedMocha (fst w) = None \<Longrightarrow>
   getMocha w =
     instrument
       (fst (createMocha (config (fst w)) (config_data.truncate (config (fst w)))
               (mochas (snd w), mocha_count (snd w))))
       (fst w,
        log (NewMocha
               (fst (createMocha (config (fst w)) (config_data.truncate (config (fst w)))
                       (mochas (snd w), mocha_count (snd w)))))
          ((snd w)
             \<lparr>mochas := fst (snd (createMocha (config (fst w))
                                    (config_data.truncate (config (fst w)))
                                    (mochas (snd w), mocha_count (snd w)))),
              mocha_count := snd (snd (createMocha (config (fst w))
                                         (config_data.truncate (config (fst w)))
                                         (mochas (snd w), mocha_count (snd w))))\<rparr>))"
  by (simp add: getMocha_def split_beta)

lemma getMocha_created_fields:
  assumes "instrumentedMocha (fst w) = None"
    and "createMocha (config (fst w)) (config_data.truncate (config (fst w)))
           (mochas (snd w), mocha_count (snd w)) = (m, (ms, n))"
  shows "fst (getMocha w) = m"
    and "instrumentedMocha (fst (snd (getMocha w))) = Some m"
    and "mocha_count (snd (snd (getMocha w))) = n"
    and "mochas (snd (snd (getMocha w))) =
           ms(m := (ms m)\<lparr>m_originalRun := Some (m_run (ms m)), m_run := GuardRun,
                          m_reporter := WarnReporter\<rparr>)"
    and "trace (snd (snd (getMocha w))) =
           trace (snd w) @ [NewMocha m] @
           (if onInstrumented (config (fst w)) then [NotifyInstrumented m] else [])"
  by (simp_all add: getMocha_created [OF assms(1)] assms(2) instrument_result instrument_frame
        env_fields)

lemma getMocha_frame:
  "config (fst (snd (getMocha w))) = config (fst w)"
  "ws (fst (snd (getMocha w))) = ws (fst w)"
  "retryTimeout (fst (snd (getMocha w))) = retryTimeout (fst w)"
  "websocket_defined (snd (snd (getMocha w))) = websocket_defined (snd w)"
  "transport_kind (snd (snd (getMocha w))) = transport_kind (snd w)"
  "sockets (snd (snd (getMocha w))) = sockets (snd w)"
  "socket_count (snd (snd (getMocha w))) = socket_count (snd w)"
  "timers (snd (snd (getMocha w))) = timers (snd w)"
  "timer_seq (snd (snd (getMocha w))) = timer_seq (snd w)"
  "runner_listeners (snd (snd (getMocha w))) = runner_listeners (snd w)"
  "runner_count (snd (snd (getMocha w))) = runner_count (snd w)"
  by (cases "instrumentedMocha (fst w)";
      simp add: getMocha_stored getMocha_created instrument_result instrument_frame
        env_fields)+

lemma getMocha_connection [simp]:
  "connection_open (snd (getMocha w)) = connection_open w"
  by (simp add: connection_open_def getMocha_frame split: option.splits)

lemma getMocha_trace:
  "\<exists>ns. trace (snd (snd (getMocha w))) = trace (snd w) @ ns \<and>
        filter is_NotifyDisconnected ns = [] \<and>
        (instrumentedMocha (fst w) = None \<longrightarrow> ns \<noteq> [])"
proof (cases "instrumentedMocha (fst w)")
  case None
  obtain m ms n where f: "createMocha (config (fst w)) (config_data.truncate (config (fst w)))
           (mochas (snd w), mocha_count (snd w)) = (m, (ms, n))"
    by (metis prod.collapse)
  show ?thesis
    using getMocha_created_fields(5) [OF None f] by auto
next
  case (Some m)
  then show ?thesis by (simp add: getMocha_stored)
qed

text \<open>onMessage\<close>

lemma onMessage_ignored:
  "\<not> is_run_request data \<Longrightarrow> snd (onMessage data w) = w"
  by (cases "get_property data ''eventName''")
     (simp_all add: onMessage_def is_run_request_def)

lemma onMessage_run:
  "is_run_request data \<Longrightarrow>
   snd (onMessage data w) =
     snd (run (fst (getMocha w))
            ((fst (snd (getMocha w)))\<lparr>instrumentedMocha := None\<rparr>, snd (snd (getMocha w))))"
  "is_run_request data \<Longrightarrow>
   fst (onMessage data w) =
     map_sum (\<lambda>err. err) (\<lambda>runner. ())
       (fst (run (fst (getMocha w))
               ((fst (snd (getMocha w)))\<lparr>instrumentedMocha := None\<rparr>, snd (snd (getMocha w)))))"
  by (simp_all add: onMessage_def is_run_request_def split_beta split: sum.splits)

lemma onMessage_clears:
  "is_run_request data \<Longrightarrow> instrumentedMocha (fst (snd (onMessage data w))) = None"
  by (simp add: onMessage_run run_client)

lemma onMessage_frame:
  "config (fst (snd (onMessage data w))) = config (fst w)"
  "ws (fst (snd (onMessage data w))) = ws (fst w)"
  "retryTimeout (fst (snd (onMessage data w))) = retryTimeout (fst w)"
  "timers (snd (snd (onMessage data w))) = timers (snd w)"
  "ws_listeners (sockets (snd (snd (onMessage data w))) s') = ws_listeners (sockets (snd w) s')"
  "ws_readyState (sockets (snd (snd (onMessage data w))) s') = ws_readyState (sockets (snd w) s')"
  by (cases "is_run_request data";
      simp add: onMessage_run(1) onMessage_ignored run_client run_frame getMocha_frame)+

lemma onMessage_disconnected_notes:
  "disconnected_notes (snd (onMessage data w)) = disconnected_notes w"
proof (cases "is_run_request data")
  case True
  obtain ns where ns: "trace (snd (snd (getMocha w))) = trace (snd w) @ ns"
    "filter is_NotifyDisconnected ns = []"
    using getMocha_trace by blast
  have "disconnected_notes (snd (onMessage data w)) =
        disconnected_notes ((fst (snd (getMocha w)))\<lparr>instrumentedMocha := None\<rparr>, snd (snd (getMocha w)))"
    by (simp add: onMessage_run(1) [OF True] run_disconnected_notes)
  also have "\<dots> = disconnected_notes w"
    by (simp add: disconnected_notes_def ns)
  finally show ?thesis .
next
  case False
  then show ?thesis by (simp add: onMessage_ignored)
qed

subsection \<open>The guard on direct runs\<close>

lemma new_Mocha_fields:
  "m_run (new_Mocha opts) = NativeRun"
  "m_originalRun (new_Mocha opts) = None"
  "m_reporter (new_Mocha opts) = NativeReporter"
  "m_reporter_class (new_Mocha opts) = DefaultReporter"
  "m_options (new_Mocha opts) = opts"
  "m_emits (new_Mocha opts) = [(''start'', []), (''end'', [])]"
  by (simp_all add: new_Mocha_def)

lemma reporter_frames_new:
  "reporter_frames [(''start'', []), (''end'', [])] = [(''start'', []), (''end'', [])]"
  by (simp add: reporter_frames_def MOCHA_EVENT_NAMES_def prepareArgs_def)

lemma reporter_frames_new_Mocha:
  "reporter_frames (m_emits (new_Mocha opts)) = [(''start'', []), (''end'', [])]"
  by (simp add: new_Mocha_fields reporter_frames_new)

lemma example_world_closed: "\<not> connection_open example_world"
  by (simp add: connection_open_def example_world_fields)

lemma instrumented_once:
  assumes "m_run (mochas (snd w) m) = NativeRun"
  shows "m_run (mochas (snd (snd (instrument m w))) m) = GuardRun"
    and "m_originalRun (mochas (snd (snd (instrument m w))) m) = Some NativeRun"
    and "m_emits (mochas (snd (snd (instrument m w))) m) = m_emits (mochas (snd w) m)"
  using assms by (simp_all add: instrument_result)

text \<open>
  Claim C5, as the code has it. Let \<open>m\<close> be a framework instance whose \<open>run\<close>
  is Mocha's own, and instrument it once. Then calling \<open>m.run()\<close> directly
  throws the "instrumented" error and changes nothing, so it throws every time.
  Calling \<open>run\<close> of the client on \<open>m\<close> installs the reporter class of the
  client on \<open>m\<close> and runs Mocha's own \<open>run\<close>, captured by \<open>instrument\<close>,
  exactly once; the reporter's constructor gives the runner one \<open>send\<close>
  listener for each lifecycle event name. What Mocha emits before its \<open>run\<close>
  returns goes through these listeners. On an open connection each such
  lifecycle event is sent as a frame, then \<open>onRunning\<close> is called with the
  runner if it is configured, and the runner is returned. Without an open
  connection the first such lifecycle event makes \<open>run\<close> throw the error of
  \<open>send\<close>, \<open>onRunning\<close> is not called and no runner is returned; only when
  Mocha emits no lifecycle event before returning does \<open>run\<close> succeed there.
\<close>

theorem instrument_guards_direct_run:
  "m_run (mochas (snd w) m) = NativeRun \<longrightarrow>
   direct_run m (snd (instrument m w)) =
     (Inl (JsError ''This Mocha instance is instrumented by mocha-remote-client, use the server to run tests''),
      snd (instrument m w)) \<and>
   m_reporter_class (mochas (snd (snd (run m (snd (instrument m w))))) m) = RemoteReporter \<and>
   runner_listeners (snd (snd (run m (snd (instrument m w))))) (runner_count (snd w)) =
     map (\<lambda>n. (n, n)) MOCHA_EVENT_NAMES \<and>
   length (original_runs m (snd (run m (snd (instrument m w))))) =
     Suc (length (original_runs m w)) \<and>
   (\<forall>s. ws (fst w) = Some s \<and> ws_readyState (sockets (snd w) s) = OPEN \<longrightarrow>
      fst (run m (snd (instrument m w))) = Inr (runner_count (snd w)) \<and>
      ws_sent (sockets (snd (snd (run m (snd (instrument m w))))) s) =
        ws_sent (sockets (snd w) s) @ reporter_frames (m_emits (mochas (snd w) m)) \<and>
      trace (snd (snd (run m (snd (instrument m w))))) =
        trace (snd (snd (instrument m w))) @ [MochaRun m (runner_count (snd w))] @
        map (\<lambda>f. WsSend s (fst f) (snd f)) (reporter_frames (m_emits (mochas (snd w) m))) @
        (if onRunning (config (fst w)) then [NotifyRunning (runner_count (snd w))] else [])) \<and>
   (\<not> connection_open w \<longrightarrow>
      (case reporter_frames (m_emits (mochas (snd w) m)) of
         [] \<Rightarrow>
           fst (run m (snd (instrument m w))) = Inr (runner_count (snd w)) \<and>
           trace (snd (snd (run m (snd (instrument m w))))) =
             trace (snd (snd (instrument m w))) @ [MochaRun m (runner_count (snd w))] @
             (if onRunning (config (fst w)) then [NotifyRunning (runner_count (snd w))] else [])
       | f # fs \<Rightarrow>
           fst (run m (snd (instrument m w))) =
             Inl (JsError (''Cannot send '' @ fst f @ '' WebSocket is closed'')) \<and>
           trace (snd (snd (run m (snd (instrument m w))))) =
             trace (snd (snd (instrument m w))) @ [MochaRun m (runner_count (snd w))]))"
proof
  assume fresh: "m_run (mochas (snd w) m) = NativeRun"
  let ?w1 = "snd (instrument m w)"
  let ?r = "runner_count (snd w)"
  let ?evs = "m_emits (mochas (snd w) m)"
  note once = instrumented_once [OF fresh]
  have cfg: "config (fst ?w1) = config (fst w)" "runner_count (snd ?w1) = ?r"
    "ws (fst ?w1) = ws (fst w)" "sockets (snd ?w1) = sockets (snd w)"
    by (simp_all add: instrument_result instrument_frame)
  have a: "direct_run m ?w1 =
     (Inl (JsError ''This Mocha instance is instrumented by mocha-remote-client, use the server to run tests''), ?w1)"
    by (rule direct_run_guard [OF once(1)])
  have open_case: "fst (run m ?w1) = Inr ?r \<and>
      ws_sent (sockets (snd (snd (run m ?w1))) s) =
        ws_sent (sockets (snd w) s) @ reporter_frames ?evs \<and>
      trace (snd (snd (run m ?w1))) =
        trace (snd ?w1) @ [MochaRun m ?r] @
        map (\<lambda>f. WsSend s (fst f) (snd f)) (reporter_frames ?evs) @
        (if onRunning (config (fst w)) then [NotifyRunning ?r] else []) \<and>
      m_reporter_class (mochas (snd (snd (run m ?w1))) m) = RemoteReporter \<and>
      runner_listeners (snd (snd (run m ?w1))) ?r = map (\<lambda>n. (n, n)) MOCHA_EVENT_NAMES"
    if s: "ws (fst w) = Some s" "ws_readyState (sockets (snd w) s) = OPEN" for s
  proof -
    have s1: "ws (fst ?w1) = Some s" "ws_readyState (sockets (snd ?w1) s) = OPEN"
      using s by (simp_all add: cfg)
    show ?thesis
      by (simp add: run_native_open [OF once(2) s1] once(3) cfg env_fields sent_frames_fields
            new_runner_fields reporter_installed_fields)
  qed
  have closed_case: "(case reporter_frames ?evs of
         [] \<Rightarrow>
           fst (run m ?w1) = Inr ?r \<and>
           trace (snd (snd (run m ?w1))) =
             trace (snd ?w1) @ [MochaRun m ?r] @
             (if onRunning (config (fst w)) then [NotifyRunning ?r] else [])
       | f # fs \<Rightarrow>
           fst (run m ?w1) = Inl (JsError (''Cannot send '' @ fst f @ '' WebSocket is closed'')) \<and>
           trace (snd (snd (run m ?w1))) = trace (snd ?w1) @ [MochaRun m ?r]) \<and>
      m_reporter_class (mochas (snd (snd (run m ?w1))) m) = RemoteReporter \<and>
      runner_listeners (snd (snd (run m ?w1))) ?r = map (\<lambda>n. (n, n)) MOCHA_EVENT_NAMES"
    if c: "\<not> connection_open w"
  proof -
    have c1: "\<not> connection_open ?w1" using c by simp
    show ?thesis
      by (cases "reporter_frames ?evs")
         (simp_all add: run_native_closed [OF once(2) c1] once(3) cfg env_fields
            new_runner_fields reporter_installed_fields)
  qed
  have always: "m_reporter_class (mochas (snd (snd (run m ?w1))) m) = RemoteReporter \<and>
      runner_listeners (snd (snd (run m ?w1))) ?r = map (\<lambda>n. (n, n)) MOCHA_EVENT_NAMES"
  proof (cases "connection_open w")
    case True
    then obtain s where "ws (fst w) = Some s" "ws_readyState (sockets (snd w) s) = OPEN"
      by (auto simp: connection_open_def split: option.splits)
    from open_case [OF this] show ?thesis by blast
  next
    case False
    from closed_case [OF this] show ?thesis by blast
  qed
  have runs: "length (original_runs m (snd (run m ?w1))) = Suc (length (original_runs m w))"
  proof -
    have w: "filter (is_MochaRun m) (map (\<lambda>f. WsSend s (fst f) (snd f)) fs) = []" for s fs
      by (induction fs) simp_all
    have t: "filter (is_MochaRun m) (trace (snd ?w1)) = filter (is_MochaRun m) (trace (snd w))"
      by (simp add: instrument_result)
    show ?thesis
    proof (cases "connection_open w")
      case True
      then obtain s where "ws (fst w) = Some s" "ws_readyState (sockets (snd w) s) = OPEN"
        by (auto simp: connection_open_def split: option.splits)
      from open_case [OF this] show ?thesis
        by (simp add: original_runs_def w t)
    next
      case False
      from closed_case [OF this] show ?thesis
        by (cases "reporter_frames ?evs") (simp_all add: original_runs_def t)
    qed
  qed
  from a always runs open_case closed_case
  show "direct_run m ?w1 =
     (Inl (JsError ''This Mocha instance is instrumented by mocha-remote-client, use the server to run tests''), ?w1) \<and>
   m_reporter_class (mochas (snd (snd (run m ?w1))) m) = RemoteReporter \<and>
   runner_listeners (snd (snd (run m ?w1))) ?r = map (\<lambda>n. (n, n)) MOCHA_EVENT_NAMES \<and>
   length (original_runs m (snd (run m ?w1))) = Suc (length (original_runs m w)) \<and>
   (\<forall>s. ws (fst w) = Some s \<and> ws_readyState (sockets (snd w) s) = OPEN \<longrightarrow>
      fst (run m ?w1) = Inr ?r \<and>
      ws_sent (sockets (snd (snd (run m ?w1))) s) =
        ws_sent (sockets (snd w) s) @ reporter_frames ?evs \<and>
      trace (snd (snd (run m ?w1))) =
        trace (snd ?w1) @ [MochaRun m ?r] @
        map (\<lambda>f. WsSend s (fst f) (snd f)) (reporter_frames ?evs) @
        (if onRunning (config (fst w)) then [NotifyRunning ?r] else [])) \<and>
   (\<not> connection_open w \<longrightarrow>
      (case reporter_frames ?evs of
         [] \<Rightarrow>
           fst (run m ?w1) = Inr ?r \<and>
           trace (snd (snd (run m ?w1))) =
             trace (snd ?w1) @ [MochaRun m ?r] @
             (if onRunning (config (fst w)) then [NotifyRunning ?r] else [])
       | f # fs \<Rightarrow>
           fst (run m ?w1) = Inl (JsError (''Cannot send '' @ fst f @ '' WebSocket is closed'')) \<and>
           trace (snd (snd (run m ?w1))) = trace (snd ?w1) @ [MochaRun m ?r]))"
    by blast
qed

text \<open>The claim as stated fails on a client without an open connection: Mocha
  emits \<open>start\<close>, \<open>send\<close> throws, and \<open>onRunning\<close>, though configured, is
  never called.\<close>

theorem run_without_connection_throws:
  "m_run (mochas (snd example_world) 0) = NativeRun \<and>
   onRunning (config (fst example_world)) \<and>
   fst (run 0 (snd (instrument 0 example_world))) =
     Inl (JsError ''Cannot send start WebSocket is closed'') \<and>
   trace (snd (snd (run 0 (snd (instrument 0 example_world))))) =
     [NotifyInstrumented 0, MochaRun 0 0]"
proof -
  let ?w1 = "snd (instrument 0 example_world)"
  have fresh: "m_run (mochas (snd example_world) 0) = NativeRun"
    by (simp add: example_world_fields new_Mocha_fields)
  note once = instrumented_once [OF fresh]
  have c: "\<not> connection_open ?w1"
    by (simp add: example_world_closed)
  have evs: "reporter_frames (m_emits (mochas (snd ?w1) 0)) = [(''start'', []), (''end'', [])]"
    by (simp add: once(3) example_world_fields reporter_frames_new_Mocha)
  show ?thesis
    using fresh
    by (simp add: run_native_closed [OF once(2) c] evs reporter_frames_new
          new_runner_fields reporter_installed_fields instrument_result instrument_frame
          example_world_fields example_config_fields new_Mocha_fields)
qed

theorem instrument_guards_witness:
  "m_run (mochas (snd open_world) 0) = NativeRun \<and>
   ws (fst open_world) = Some 0 \<and>
   ws_readyState (sockets (snd open_world) 0) = OPEN \<and>
   fst (direct_run 0 (snd (instrument 0 open_world))) =
     Inl (JsError ''This Mocha instance is instrumented by mocha-remote-client, use the server to run tests'') \<and>
   fst (run 0 (snd (instrument 0 open_world))) = Inr 0 \<and>
   ws_sent (sockets (snd (snd (run 0 (snd (instrument 0 open_world))))) 0) =
     [(''start'', []), (''end'', [])] \<and>
   trace (snd (snd (run 0 (snd (instrument 0 open_world))))) =
     trace (snd open_world) @
     [NotifyInstrumented 0, MochaRun 0 0, WsSend 0 ''start'' [], WsSend 0 ''end'' [],
      NotifyRunning 0] \<and>
   m_run (mochas (snd example_world) 0) = NativeRun \<and>
   \<not> connection_open example_world \<and>
   fst (run 0 (snd (instrument 0 example_world))) =
     Inl (JsError ''Cannot send start WebSocket is closed'')"
proof -
  have f1: "m_run (mochas (snd open_world) 0) = NativeRun"
    and f2: "m_run (mochas (snd example_world) 0) = NativeRun"
    by (simp_all add: open_world_fields example_world_fields new_Mocha_fields)
  have o: "ws (fst open_world) = Some 0" "ws_readyState (sockets (snd open_world) 0) = OPEN"
    by (simp_all add: open_world_fields)
  have c: "\<not> connection_open example_world"
    by (rule example_world_closed)
  note e = reporter_frames_new_Mocha
  from instrument_guards_direct_run [of open_world 0] f1 o
  have a: "direct_run 0 (snd (instrument 0 open_world)) =
     (Inl (JsError ''This Mocha instance is instrumented by mocha-remote-client, use the server to run tests''),
      snd (instrument 0 open_world))"
    and b: "fst (run 0 (snd (instrument 0 open_world))) = Inr (runner_count (snd open_world))"
    and d: "ws_sent (sockets (snd (snd (run 0 (snd (instrument 0 open_world))))) 0) =
        ws_sent (sockets (snd open_world) 0) @
        reporter_frames (m_emits (mochas (snd open_world) 0))"
    and t: "trace (snd (snd (run 0 (snd (instrument 0 open_world))))) =
        trace (snd (snd (instrument 0 open_world))) @ [MochaRun 0 (runner_count (snd open_world))] @
        map (\<lambda>f. WsSend 0 (fst f) (snd f)) (reporter_frames (m_emits (mochas (snd open_world) 0))) @
        (if onRunning (config (fst open_world)) then [NotifyRunning (runner_count (snd open_world))]
         else [])"
    by blast+
  from instrument_guards_direct_run [of example_world 0] f2 c
  have "case reporter_frames (m_emits (mochas (snd example_world) 0)) of
         [] \<Rightarrow>
           fst (run 0 (snd (instrument 0 example_world))) = Inr (runner_count (snd example_world)) \<and>
           trace (snd (snd (run 0 (snd (instrument 0 example_world))))) =
             trace (snd (snd (instrument 0 example_world))) @
             [MochaRun 0 (runner_count (snd example_world))] @
             (if onRunning (config (fst example_world))
              then [NotifyRunning (runner_count (snd example_world))] else [])
       | f # fs \<Rightarrow>
           fst (run 0 (snd (instrument 0 example_world))) =
             Inl (JsError (''Cannot send '' @ fst f @ '' WebSocket is closed'')) \<and>
           trace (snd (snd (run 0 (snd (instrument 0 example_world))))) =
             trace (snd (snd (instrument 0 example_world))) @
             [MochaRun 0 (runner_count (snd example_world))]"
    by blast
  then have x: "fst (run 0 (snd (instrument 0 example_world))) =
     Inl (JsError ''Cannot send start WebSocket is closed'')"
    by (simp add: example_world_fields e)
  have a': "fst (direct_run 0 (snd (instrument 0 open_world))) =
     Inl (JsError ''This Mocha instance is instrumented by mocha-remote-client, use the server to run tests'')"
    by (simp add: a)
  have b': "fst (run 0 (snd (instrument 0 open_world))) = Inr 0"
    using b by (simp add: open_world_fields)
  have d': "ws_sent (sockets (snd (snd (run 0 (snd (instrument 0 open_world))))) 0) =
     [(''start'', []), (''end'', [])]"
    using d by (simp add: open_world_fields e)
  have t': "trace (snd (snd (run 0 (snd (instrument 0 open_world))))) =
     trace (snd open_world) @
     [NotifyInstrumented 0, MochaRun 0 0, WsSend 0 ''start'' [], WsSend 0 ''end'' [],
      NotifyRunning 0]"
    using t by (simp add: e instrument_result open_world_fields example_config_fields)
  from f1 o a' b' d' t' f2 c x show ?thesis by simp
qed

subsection \<open>Instrumenting an instance twice\<close>

lemma reinstrument_general:
  "m_originalRun (mochas (snd (snd (instrument m (snd (instrument m w))))) m) = Some GuardRun \<and>
   instrumentedMocha (fst (snd (instrument m (snd (instrument m w))))) = Some m \<and>
   fst (run m (snd (instrument m (snd (instrument m w))))) =
     Inl (JsError ''This Mocha instance is instrumented by mocha-remote-client, use the server to run tests'')"
proof -
  let ?w2 = "snd (instrument m (snd (instrument m w)))"
  have g: "m_originalRun (mochas (snd ?w2) m) = Some GuardRun"
    by (simp add: instrument_result)
  show ?thesis
    by (simp add: run_guard [OF g]) (simp add: instrument_result)
qed

text \<open>
  Claim C6 at its failing input: a new Mocha instance, instrumented twice.
  The first \<open>instrument\<close> stores Mocha's own \<open>run\<close> in \<open>originalRun\<close>; the
  second stores what \<open>run\<close> holds by then, the guard. \<open>run\<close> of the client
  then throws the "instrumented" error and Mocha's own \<open>run\<close> never runs.
\<close>

theorem reinstrument_loses_original_run:
  "m_run (mochas (snd example_world) 0) = NativeRun \<and>
   m_originalRun (mochas (snd (snd (instrument 0 example_world))) 0) = Some NativeRun \<and>
   m_originalRun (mochas (snd (snd (instrument 0 (snd (instrument 0 example_world))))) 0) =
     Some GuardRun \<and>
   fst (run 0 (snd (instrument 0 (snd (instrument 0 example_world))))) =
     Inl (JsError ''This Mocha instance is instrumented by mocha-remote-client, use the server to run tests'') \<and>
   original_runs 0 (snd (run 0 (snd (instrument 0 (snd (instrument 0 example_world)))))) = []"
proof -
  let ?w2 = "snd (instrument 0 (snd (instrument 0 example_world)))"
  have g: "m_originalRun (mochas (snd ?w2) 0) = Some GuardRun"
    by (simp add: instrument_result)
  have t: "trace (snd ?w2) = [NotifyInstrumented 0, NotifyInstrumented 0]"
    by (simp add: instrument_result example_world_fields example_config_fields)
  have r: "original_runs 0 (snd (run 0 ?w2)) = []"
    by (simp add: run_guard [OF g] original_runs_def t reporter_installed_fields)
  show ?thesis
    using r reinstrument_general [of 0 example_world]
    by (simp add: example_world_fields new_Mocha_fields instrument_result)
qed

subsection \<open>getMocha and run requests\<close>

lemma default_factory:
  "createMocha cfg = default_createMocha \<Longrightarrow>
   createMocha cfg (config_data.truncate cfg) (ms, n) =
     (n, (ms(n := new_Mocha (mochaOptions cfg)), Suc n))"
  by (simp add: default_createMocha_def truncate_fields)

lemma example_factory: "createMocha example_config = default_createMocha"
  by (simp add: example_config_def DEFAULT_CONFIG_def)

text \<open>
  Claim C7, as the code has it. When an instrumented instance is stored,
  \<open>getMocha\<close> returns it and changes nothing; the stored instance is the one
  \<open>instrument\<close> was last called on, and \<open>run\<close> of the client leaves the
  stored reference as it is, so the instance may have been run already. When
  none is stored, \<open>getMocha\<close> calls the configured factory with the
  configuration, instruments the instance the factory returns (its \<open>run\<close>
  becomes the guard, its \<open>originalRun\<close> what \<open>run\<close> was, \<open>onInstrumented\<close>
  is notified if configured), stores it and returns it; the factory of
  \<open>DEFAULT_CONFIG\<close> constructs a new instance from \<open>mochaOptions\<close>. After a
  run request has been handled no instance is stored, so \<open>getMocha\<close> then
  calls the factory again.
\<close>

theorem getMocha_stored_or_new:
  "(\<forall>m. instrumentedMocha (fst w) = Some m \<longrightarrow> getMocha w = (m, w)) \<and>
   getMocha (snd (instrument m' w)) = (m', snd (instrument m' w)) \<and>
   instrumentedMocha (fst (snd (run m' w))) = instrumentedMocha (fst w) \<and>
   (\<forall>m ms n.
      instrumentedMocha (fst w) = None \<and>
      createMocha (config (fst w)) (config_data.truncate (config (fst w)))
        (mochas (snd w), mocha_count (snd w)) = (m, (ms, n)) \<longrightarrow>
      fst (getMocha w) = m \<and>
      instrumentedMocha (fst (snd (getMocha w))) = Some m \<and>
      mocha_count (snd (snd (getMocha w))) = n \<and>
      mochas (snd (snd (getMocha w))) =
        ms(m := (ms m)\<lparr>m_originalRun := Some (m_run (ms m)), m_run := GuardRun,
                       m_reporter := WarnReporter\<rparr>) \<and>
      trace (snd (snd (getMocha w))) =
        trace (snd w) @ [NewMocha m] @
        (if onInstrumented (config (fst w)) then [NotifyInstrumented m] else [])) \<and>
   (createMocha (config (fst w)) = default_createMocha \<longrightarrow>
      createMocha (config (fst w)) (config_data.truncate (config (fst w)))
        (mochas (snd w), mocha_count (snd w)) =
      (mocha_count (snd w),
       ((mochas (snd w))(mocha_count (snd w) := new_Mocha (mochaOptions (config (fst w)))),
        Suc (mocha_count (snd w))))) \<and>
   (is_run_request data \<longrightarrow>
      instrumentedMocha (fst (snd (onMessage data w))) = None \<and>
      fst (getMocha (snd (onMessage data w))) =
        fst (createMocha (config (fst w)) (config_data.truncate (config (fst w)))
               (mochas (snd (snd (onMessage data w))),
                mocha_count (snd (snd (onMessage data w))))))"
proof -
  have a: "getMocha (snd (instrument m' w)) = (m', snd (instrument m' w))"
    by (rule getMocha_stored) (simp add: instrument_result)
  have b: "instrumentedMocha (fst (snd (run m' w))) = instrumentedMocha (fst w)"
    by (simp add: run_client)
  have c: "fst (getMocha (snd (onMessage data w))) =
        fst (createMocha (config (fst w)) (config_data.truncate (config (fst w)))
               (mochas (snd (snd (onMessage data w))),
                mocha_count (snd (snd (onMessage data w)))))"
    if "is_run_request data"
    by (simp add: getMocha_created [OF onMessage_clears [OF that]] instrument_result
          onMessage_frame)
  show ?thesis
    using getMocha_stored [of w] getMocha_created_fields [of w] a b c
      onMessage_clears [of data w] default_factory [of "config (fst w)"]
    by (intro conjI allI impI) auto
qed

text \<open>The claim as stated fails: after \<open>instrument\<close> and \<open>run\<close> on an open
  connection the stored instance has been run, and \<open>getMocha\<close> returns it.\<close>

lemma ran_world_fields:
  "fst (run 0 instrumented_open_world) = Inr 0"
  "instrumentedMocha (fst ran_world) = Some 0"
  "original_runs 0 ran_world = [MochaRun 0 0]"
proof -
  have fresh: "m_run (mochas (snd open_world) 0) = NativeRun"
    by (simp add: open_world_fields new_Mocha_fields)
  note once = instrumented_once [OF fresh]
  have s: "ws (fst (snd (instrument 0 open_world))) = Some 0"
    "ws_readyState (sockets (snd (snd (instrument 0 open_world))) 0) = OPEN"
    by (simp_all add: instrument_result instrument_frame open_world_fields)
  have w: "filter (is_MochaRun m) (map (\<lambda>f. WsSend s (fst f) (snd f)) fs) = []" for m s fs
    by (induction fs) simp_all
  show "fst (run 0 instrumented_open_world) = Inr 0"
    by (simp add: instrumented_open_world_def run_native_open [OF once(2) s] instrument_frame
          open_world_fields)
  show "instrumentedMocha (fst ran_world) = Some 0"
    by (simp add: ran_world_def instrumented_open_world_def run_client instrument_result)
  show "original_runs 0 ran_world = [MochaRun 0 0]"
    by (simp add: ran_world_def instrumented_open_world_def original_runs_def
          run_native_open [OF once(2) s] env_fields sent_frames_fields new_runner_fields
          reporter_installed_fields instrument_result instrument_frame open_world_fields
          connected_world_trace w)
qed

theorem getMocha_returns_instance_already_run:
  "fst (run 0 instrumented_open_world) = Inr 0 \<and>
   original_runs 0 ran_world = [MochaRun 0 0] \<and>
   getMocha ran_world = (0, ran_world)"
  using getMocha_stored [of ran_world 0] by (simp add: ran_world_fields)

lemma instrumented_world_fields:
  "config (fst instrumented_world) = example_config"
  "instrumentedMocha (fst instrumented_world) = Some 0"
  "mocha_count (snd instrumented_world) = 1"
  "runner_count (snd instrumented_world) = 0"
  "m_originalRun (mochas (snd instrumented_world) 0) = Some NativeRun"
  "trace (snd instrumented_world) = [NotifyInstrumented 0]"
  by (simp_all add: instrumented_world_def instrument_result instrument_frame
        example_world_fields example_config_fields new_Mocha_fields)

lemma example_messages:
  "is_run_request eventName_run_message"
  "\<not> is_run_request type_run_message"
  "\<not> is_run_request (JString ''run'')"
  by (simp_all add: is_run_request_def eventName_run_message_def type_run_message_def)

theorem getMocha_witness:
  "instrumentedMocha (fst instrumented_world) = Some 0 \<and>
   getMocha instrumented_world = (0, instrumented_world) \<and>
   instrumentedMocha (fst open_world) = None \<and>
   createMocha (config (fst open_world)) = default_createMocha \<and>
   fst (getMocha open_world) = 1 \<and>
   instrumentedMocha (fst (snd (getMocha open_world))) = Some 1 \<and>
   m_run (mochas (snd (snd (getMocha open_world))) 1) = GuardRun \<and>
   m_originalRun (mochas (snd (snd (getMocha open_world))) 1) = Some NativeRun \<and>
   is_run_request eventName_run_message \<and>
   instrumentedMocha (fst (snd (onMessage eventName_run_message open_world))) = None"
proof -
  have s: "instrumentedMocha (fst instrumented_world) = Some 0"
    by (simp add: instrumented_world_fields)
  have n: "instrumentedMocha (fst open_world) = None"
    by (simp add: open_world_fields)
  have d: "createMocha (config (fst open_world)) = default_createMocha"
    by (simp add: open_world_fields example_factory)
  have r: "is_run_request eventName_run_message"
    by (rule example_messages)
  note inst = getMocha_stored_or_new [of open_world 0 eventName_run_message]
  from getMocha_stored_or_new [of instrumented_world 0 eventName_run_message] s
  have a: "getMocha instrumented_world = (0, instrumented_world)"
    by blast
  from inst d
  have f: "createMocha (config (fst open_world)) (config_data.truncate (config (fst open_world)))
        (mochas (snd open_world), mocha_count (snd open_world)) =
      (mocha_count (snd open_world),
       ((mochas (snd open_world))(mocha_count (snd open_world) :=
           new_Mocha (mochaOptions (config (fst open_world)))),
        Suc (mocha_count (snd open_world))))"
    by blast
  from inst n f
  have b: "fst (getMocha open_world) = mocha_count (snd open_world)"
    and c: "instrumentedMocha (fst (snd (getMocha open_world))) = Some (mocha_count (snd open_world))"
    and m: "mochas (snd (snd (getMocha open_world))) =
        ((mochas (snd open_world))(mocha_count (snd open_world) :=
           new_Mocha (mochaOptions (config (fst open_world)))))
        (mocha_count (snd open_world) :=
           (((mochas (snd open_world))(mocha_count (snd open_world) :=
               new_Mocha (mochaOptions (config (fst open_world))))) (mocha_count (snd open_world)))
           \<lparr>m_originalRun := Some (m_run (((mochas (snd open_world))(mocha_count (snd open_world) :=
               new_Mocha (mochaOptions (config (fst open_world))))) (mocha_count (snd open_world)))),
            m_run := GuardRun, m_reporter := WarnReporter\<rparr>)"
    by blast+
  from inst r
  have e: "instrumentedMocha (fst (snd (onMessage eventName_run_message open_world))) = None"
    by blast
  have b': "fst (getMocha open_world) = 1" and c': "instrumentedMocha (fst (snd (getMocha open_world))) = Some 1"
    using b c by (simp_all add: open_world_fields)
  have m': "m_run (mochas (snd (snd (getMocha open_world))) 1) = GuardRun"
    "m_originalRun (mochas (snd (snd (getMocha open_world))) 1) = Some NativeRun"
    by (simp_all add: m open_world_fields new_Mocha_fields)
  from s a n d b' c' m' r e show ?thesis by simp
qed

subsection \<open>Run requests\<close>

lemma is_run_request_iff:
  "is_run_request data \<longleftrightarrow>
     (\<exists>k ps. data = JObject k ps \<and> get_own ps ''eventName'' = JString ''run'')"
  by (cases data) (simp_all add: is_run_request_def)

lemma run_trace_grows:
  "\<exists>xs. trace (snd (snd (run m w))) = trace (snd w) @ xs"
proof -
  obtain fs ns E where
    E: "E = snd (reporter_installed m w) \<or> E = snd (new_runner m (reporter_installed m w))"
    and ns: "\<forall>n \<in> set ns. n = NotifyRunning (runner_count (snd w))"
    and r: "snd (run m w) =
       (fst w, fold log ns (case ws (fst w) of Some s \<Rightarrow> sent_frames s fs E | None \<Rightarrow> E))"
    by (rule run_shapeE)
  from E obtain ys where ys: "trace E = trace (snd w) @ ys"
    by (auto simp: new_runner_fields reporter_installed_fields)
  show ?thesis
    by (cases "ws (fst w)") (simp_all add: r fold_log_fields sent_frames_fields ys)
qed

lemma onMessage_run_changes:
  assumes "is_run_request data"
  shows "snd (onMessage data w) \<noteq> w"
proof (cases "instrumentedMocha (fst w)")
  case (Some m)
  then show ?thesis using onMessage_clears [OF assms, of w] by auto
next
  case None
  obtain ns where ns: "trace (snd (snd (getMocha w))) = trace (snd w) @ ns" "ns \<noteq> []"
    using getMocha_trace [of w] None by blast
  obtain xs where "trace (snd (snd (onMessage data w))) = trace (snd (snd (getMocha w))) @ xs"
    using run_trace_grows
      [of "fst (getMocha w)"
          "((fst (snd (getMocha w)))\<lparr>instrumentedMocha := None\<rparr>, snd (snd (getMocha w)))"]
    by (auto simp: onMessage_run(1) [OF assms])
  then have "trace (snd (snd (onMessage data w))) \<noteq> trace (snd w)"
    using ns by simp
  then show ?thesis by auto
qed

lemma filter_MochaRun_sends:
  "filter (is_MochaRun m) (map (\<lambda>f. WsSend s (fst f) (snd f)) fs) = []"
  by (induction fs) simp_all

lemma run_native_original_runs:
  assumes "m_originalRun (mochas (snd w) m) = Some NativeRun"
  shows "original_runs m (snd (run m w)) = original_runs m w @ [MochaRun m (runner_count (snd w))]"
proof (cases "connection_open w")
  case True
  then obtain s where s: "ws (fst w) = Some s" "ws_readyState (sockets (snd w) s) = OPEN"
    by (auto simp: connection_open_def split: option.splits)
  show ?thesis
    by (simp add: run_native_open [OF assms s] original_runs_def env_fields sent_frames_fields
          new_runner_fields reporter_installed_fields filter_MochaRun_sends)
next
  case False
  show ?thesis
    by (simp add: run_native_closed [OF assms False] original_runs_def env_fields
          new_runner_fields reporter_installed_fields split: list.splits)
qed

lemma onMessage_run_new:
  assumes req: "is_run_request data" and none: "instrumentedMocha (fst w) = None"
    and f: "createMocha (config (fst w)) (config_data.truncate (config (fst w)))
           (mochas (snd w), mocha_count (snd w)) = (m, (ms, n))"
    and nat: "m_run (ms m) = NativeRun"
  shows "original_runs m (snd (onMessage data w)) =
           original_runs m w @ [MochaRun m (runner_count (snd w))]"
    and "connection_open w \<Longrightarrow> fst (onMessage data w) = Inr ()"
proof -
  let ?w1 = "((fst (snd (getMocha w)))\<lparr>instrumentedMocha := None\<rparr>, snd (snd (getMocha w)))"
  note g = getMocha_created_fields [OF none f]
  have o: "m_originalRun (mochas (snd ?w1) m) = Some NativeRun"
    by (simp add: g nat)
  have t: "original_runs m ?w1 = original_runs m w"
    by (simp add: original_runs_def g)
  show "original_runs m (snd (onMessage data w)) =
           original_runs m w @ [MochaRun m (runner_count (snd w))]"
    using run_native_original_runs [OF o]
    by (simp add: onMessage_run(1) [OF req] g(1) t getMocha_frame)
  show "fst (onMessage data w) = Inr ()" if "connection_open w"
  proof -
    from that obtain s where s: "ws (fst w) = Some s" "ws_readyState (sockets (snd w) s) = OPEN"
      by (auto simp: connection_open_def split: option.splits)
    have s1: "ws (fst ?w1) = Some s" "ws_readyState (sockets (snd ?w1) s) = OPEN"
      using s by (simp_all add: getMocha_frame)
    show ?thesis
      by (simp add: onMessage_run(2) [OF req] g(1) run_native_open [OF o s1])
  qed
qed

text \<open>
  Claim C8, as the code has it. \<open>onMessage\<close> treats a decoded message as a
  run request exactly when it is an object whose own property \<open>eventName\<close>
  (not \<open>type\<close>) is the string \<open>run\<close>. For every other message nothing
  changes. On a run request the handler
  takes the instance of \<open>getMocha\<close>, clears the stored reference and calls
  \<open>run\<close> on that instance; the outcome and the state are those of that call,
  so the state always changes. When no instance was stored and the factory
  returns an instance with a native \<open>run\<close>, that \<open>run\<close> is invoked exactly
  once more, on the new instance; with the connection open the handler then
  returns normally.
\<close>

theorem onMessage_runs_on_eventName_run:
  "(is_run_request data \<longleftrightarrow>
      (\<exists>k ps. data = JObject k ps \<and> get_own ps ''eventName'' = JString ''run'')) \<and>
   (\<not> is_run_request data \<longrightarrow> snd (onMessage data w) = w) \<and>
   (is_run_request data \<longrightarrow>
      snd (onMessage data w) \<noteq> w \<and>
      instrumentedMocha (fst (snd (onMessage data w))) = None \<and>
      snd (onMessage data w) =
        snd (run (fst (getMocha w))
               ((fst (snd (getMocha w)))\<lparr>instrumentedMocha := None\<rparr>, snd (snd (getMocha w)))) \<and>
      fst (onMessage data w) =
        map_sum (\<lambda>err. err) (\<lambda>runner. ())
          (fst (run (fst (getMocha w))
                  ((fst (snd (getMocha w)))\<lparr>instrumentedMocha := None\<rparr>,
                   snd (snd (getMocha w))))) \<and>
      (\<forall>m ms n.
         instrumentedMocha (fst w) = None \<and>
         createMocha (config (fst w)) (config_data.truncate (config (fst w)))
           (mochas (snd w), mocha_count (snd w)) = (m, (ms, n)) \<and>
         m_run (ms m) = NativeRun \<longrightarrow>
         original_runs m (snd (onMessage data w)) =
           original_runs m w @ [MochaRun m (runner_count (snd w))] \<and>
         (connection_open w \<longrightarrow> fst (onMessage data w) = Inr ())))"
proof (intro conjI allI impI)
  show "is_run_request data \<longleftrightarrow>
      (\<exists>k ps. data = JObject k ps \<and> get_own ps ''eventName'' = JString ''run'')"
    by (rule is_run_request_iff)
next
  assume "\<not> is_run_request data"
  then show "snd (onMessage data w) = w" by (rule onMessage_ignored)
next
  assume r: "is_run_request data"
  show "snd (onMessage data w) \<noteq> w" by (rule onMessage_run_changes [OF r])
  show "instrumentedMocha (fst (snd (onMessage data w))) = None" by (rule onMessage_clears [OF r])
  show "snd (onMessage data w) =
        snd (run (fst (getMocha w))
               ((fst (snd (getMocha w)))\<lparr>instrumentedMocha := None\<rparr>, snd (snd (getMocha w))))"
    by (rule onMessage_run(1) [OF r])
  show "fst (onMessage data w) =
        map_sum (\<lambda>err. err) (\<lambda>runner. ())
          (fst (run (fst (getMocha w))
                  ((fst (snd (getMocha w)))\<lparr>instrumentedMocha := None\<rparr>,
                   snd (snd (getMocha w)))))"
    by (rule onMessage_run(2) [OF r])
  fix m ms n
  assume h: "instrumentedMocha (fst w) = None \<and>
         createMocha (config (fst w)) (config_data.truncate (config (fst w)))
           (mochas (snd w), mocha_count (snd w)) = (m, (ms, n)) \<and>
         m_run (ms m) = NativeRun"
  then have h1: "instrumentedMocha (fst w) = None"
    and h2: "createMocha (config (fst w)) (config_data.truncate (config (fst w)))
           (mochas (snd w), mocha_count (snd w)) = (m, (ms, n))"
    and h3: "m_run (ms m) = NativeRun"
    by blast+
  show "original_runs m (snd (onMessage data w)) =
           original_runs m w @ [MochaRun m (runner_count (snd w))]"
    by (rule onMessage_run_new(1) [OF r h1 h2 h3])
  assume "connection_open w"
  then show "fst (onMessage data w) = Inr ()"
    by (rule onMessage_run_new(2) [OF r h1 h2 h3])
qed

text \<open>The claim as stated fails: a message whose \<open>type\<close> is \<open>run\<close>, received
  on an open connection, is ignored; the message the handler acts on has
  \<open>eventName\<close> \<open>run\<close>.\<close>

lemma open_world_factory:
  "createMocha (config (fst open_world)) (config_data.truncate (config (fst open_world)))
     (mochas (snd open_world), mocha_count (snd open_world)) =
   (1, ((mochas (snd open_world))(1 := new_Mocha []), Suc 1))"
  by (simp add: open_world_fields example_factory default_createMocha_def truncate_fields
        example_config_def DEFAULT_CONFIG_def)

lemma open_world_open: "connection_open open_world"
  by (simp add: connection_open_def open_world_fields)

lemma open_world_original_runs: "original_runs m open_world = []"
  by (simp add: original_runs_def open_world_fields connected_world_trace)

theorem type_run_message_is_ignored:
  "connection_open open_world \<and>
   onMessage type_run_message open_world = (Inr (), open_world) \<and>
   original_runs 1 (snd (onMessage type_run_message open_world)) = [] \<and>
   original_runs 1 (snd (onMessage eventName_run_message open_world)) = [MochaRun 1 0]"
proof -
  have a: "onMessage type_run_message open_world = (Inr (), open_world)"
    using onMessage_ignored [OF example_messages(2), of open_world]
    by (cases "onMessage type_run_message open_world")
       (simp add: onMessage_def type_run_message_def)
  have n: "instrumentedMocha (fst open_world) = None"
    by (simp add: open_world_fields)
  have nat: "m_run (((mochas (snd open_world))(1 := new_Mocha [])) 1) = NativeRun"
    by (simp add: new_Mocha_fields)
  have "original_runs 1 (snd (onMessage eventName_run_message open_world)) =
          original_runs 1 open_world @ [MochaRun 1 (runner_count (snd open_world))]"
    by (rule onMessage_run_new(1) [OF example_messages(1) n open_world_factory nat])
  then have b: "original_runs 1 (snd (onMessage eventName_run_message open_world)) = [MochaRun 1 0]"
    by (simp add: open_world_fields(10) open_world_original_runs)
  from a b show ?thesis by (simp add: open_world_open open_world_original_runs)
qed

theorem onMessage_witness:
  "is_run_request eventName_run_message \<and>
   instrumentedMocha (fst open_world) = None \<and>
   connection_open open_world \<and>
   fst (onMessage eventName_run_message open_world) = Inr () \<and>
   original_runs 1 (snd (onMessage eventName_run_message open_world)) = [MochaRun 1 0] \<and>
   instrumentedMocha (fst (snd (onMessage eventName_run_message open_world))) = None \<and>
   \<not> is_run_request (JString ''run'') \<and>
   snd (onMessage (JString ''run'') open_world) = open_world"
proof -
  have r: "is_run_request eventName_run_message" and i: "\<not> is_run_request (JString ''run'')"
    by (rule example_messages)+
  have n: "instrumentedMocha (fst open_world) = None"
    by (simp add: open_world_fields)
  have nat: "m_run (((mochas (snd open_world))(1 := new_Mocha [])) 1) = NativeRun"
    by (simp add: new_Mocha_fields)
  note inst = onMessage_runs_on_eventName_run [of eventName_run_message open_world]
  from inst r n open_world_factory nat
  have a: "original_runs 1 (snd (onMessage eventName_run_message open_world)) =
             original_runs 1 open_world @ [MochaRun 1 (runner_count (snd open_world))]"
    and b: "connection_open open_world \<longrightarrow> fst (onMessage eventName_run_message open_world) = Inr ()"
    by blast+
  from inst r
  have c: "instrumentedMocha (fst (snd (onMessage eventName_run_message open_world))) = None"
    by blast
  from onMessage_runs_on_eventName_run [of "JString ''run''" open_world] i
  have d: "snd (onMessage (JString ''run'') open_world) = open_world"
    by blast
  from a b c d r i n open_world_open show ?thesis
    by (simp add: open_world_original_runs open_world_fields)
qed

subsection \<open>Constructing a client\<close>

lemma new_client_no_websocket:
  "\<not> websocket_defined e \<Longrightarrow>
   new_client p e = (Inl (JsError ''mocha-remote-client expects a global WebSocket''), e)"
  by (simp add: new_client_def Let_def)

lemma new_client_manual:
  "websocket_defined e \<Longrightarrow> \<not> autoConnect (merge_config DEFAULT_CONFIG p) \<Longrightarrow>
   new_client p e =
     (Inr \<lparr> config = merge_config DEFAULT_CONFIG p, ws = None, instrumentedMocha = None,
            retryTimeout = None \<rparr>, e)"
  by (simp add: new_client_def Let_def)

lemma new_client_auto:
  assumes "websocket_defined e" and "autoConnect (merge_config DEFAULT_CONFIG p)"
  shows "fst (new_client p e) =
           Inr \<lparr> config = merge_config DEFAULT_CONFIG p, ws = Some (socket_count e),
                 instrumentedMocha = None, retryTimeout = None \<rparr>"
    and "snd (new_client p e) =
           snd (snd (connect None
             (\<lparr> config = merge_config DEFAULT_CONFIG p, ws = None, instrumentedMocha = None,
                retryTimeout = None \<rparr>, e)))"
proof -
  let ?c = "\<lparr> config = merge_config DEFAULT_CONFIG p, ws = None, instrumentedMocha = None,
              retryTimeout = None \<rparr>"
  have ok: "ws (fst (?c, e)) = None" by simp
  have r: "fst (connect None (?c, e)) = Inr ()"
    by (rule connect_ok(1) [OF ok])
  have c: "fst (snd (connect None (?c, e))) = ?c\<lparr>ws := Some (socket_count e)\<rparr>"
    using connect_ok(2) [OF ok, of None] by simp
  have n: "new_client p e =
      (case connect None (?c, e) of
         (Inl err, (c', e')) \<Rightarrow> (Inl err, e')
       | (Inr u, (c', e')) \<Rightarrow> (Inr c', e'))"
    using assms by (simp add: new_client_def Let_def)
  obtain res c' e' where k: "connect None (?c, e) = (res, (c', e'))"
    by (metis prod.collapse)
  from r c k have "res = Inr ()" and "c' = ?c\<lparr>ws := Some (socket_count e)\<rparr>" by simp_all
  then show "fst (new_client p e) =
           Inr \<lparr> config = merge_config DEFAULT_CONFIG p, ws = Some (socket_count e),
                 instrumentedMocha = None, retryTimeout = None \<rparr>"
    and "snd (new_client p e) = snd (snd (connect None (?c, e)))"
    using n k by simp_all
qed

lemma merge_autoConnect:
  "autoConnect (merge_config DEFAULT_CONFIG p) =
     (case p_autoConnect p of Some b \<Rightarrow> b | None \<Rightarrow> True)"
  by (simp add: merge_config_def DEFAULT_CONFIG_def split: option.splits)

text \<open>
  Claim C9. Without a global \<open>WebSocket\<close> the constructor throws and touches
  nothing. With one, the configuration is the default overridden by the
  argument, so \<open>autoConnect\<close> is true unless the argument says otherwise. When
  it is true the constructor connects at once: the new client's connection is a
  new socket, still connecting, to the configured url, with the four listeners
  registered. When it is false the constructor makes a client without a
  connection and calls nothing.
\<close>

theorem new_client_connects_unless_told_not_to:
  "autoConnect (merge_config DEFAULT_CONFIG p) =
     (case p_autoConnect p of Some b \<Rightarrow> b | None \<Rightarrow> True) \<and>
   (\<not> websocket_defined e \<longrightarrow>
      new_client p e = (Inl (JsError ''mocha-remote-client expects a global WebSocket''), e)) \<and>
   (websocket_defined e \<and> autoConnect (merge_config DEFAULT_CONFIG p) \<longrightarrow>
      fst (new_client p e) =
        Inr \<lparr> config = merge_config DEFAULT_CONFIG p, ws = Some (socket_count e),
              instrumentedMocha = None, retryTimeout = None \<rparr> \<and>
      socket_count (snd (new_client p e)) = Suc (socket_count e) \<and>
      sockets (snd (new_client p e)) (socket_count e) =
        \<lparr> ws_url = url (merge_config DEFAULT_CONFIG p),
          ws_protocol = ''mocha-remote-'' @ render_id (id_cfg (merge_config DEFAULT_CONFIG p)),
          ws_readyState = CONNECTING,
          ws_listeners = [(''close'', OnClose), (''error'', OnError),
                          (''message'', OnMessage), (''open'', OnOpen None)],
          ws_sent = [] \<rparr> \<and>
      trace (snd (new_client p e)) =
        trace e @
        [NewWebSocket (socket_count e) (url (merge_config DEFAULT_CONFIG p))
           (''mocha-remote-'' @ render_id (id_cfg (merge_config DEFAULT_CONFIG p))),
         AddEventListener (socket_count e) ''close'' OnClose,
         AddEventListener (socket_count e) ''error'' OnError,
         AddEventListener (socket_count e) ''message'' OnMessage,
         AddEventListener (socket_count e) ''open'' (OnOpen None)]) \<and>
   (websocket_defined e \<and> \<not> autoConnect (merge_config DEFAULT_CONFIG p) \<longrightarrow>
      new_client p e =
        (Inr \<lparr> config = merge_config DEFAULT_CONFIG p, ws = None, instrumentedMocha = None,
               retryTimeout = None \<rparr>, e))"
proof -
  have auto_part: "fst (new_client p e) =
        Inr \<lparr> config = merge_config DEFAULT_CONFIG p, ws = Some (socket_count e),
              instrumentedMocha = None, retryTimeout = None \<rparr> \<and>
      socket_count (snd (new_client p e)) = Suc (socket_count e) \<and>
      sockets (snd (new_client p e)) (socket_count e) =
        \<lparr> ws_url = url (merge_config DEFAULT_CONFIG p),
          ws_protocol = ''mocha-remote-'' @ render_id (id_cfg (merge_config DEFAULT_CONFIG p)),
          ws_readyState = CONNECTING,
          ws_listeners = [(''close'', OnClose), (''error'', OnError),
                          (''message'', OnMessage), (''open'', OnOpen None)],
          ws_sent = [] \<rparr> \<and>
      trace (snd (new_client p e)) =
        trace e @
        [NewWebSocket (socket_count e) (url (merge_config DEFAULT_CONFIG p))
           (''mocha-remote-'' @ render_id (id_cfg (merge_config DEFAULT_CONFIG p))),
         AddEventListener (socket_count e) ''close'' OnClose,
         AddEventListener (socket_count e) ''error'' OnError,
         AddEventListener (socket_count e) ''message'' OnMessage,
         AddEventListener (socket_count e) ''open'' (OnOpen None)]"
    if "websocket_defined e" and "autoConnect (merge_config DEFAULT_CONFIG p)"
    using new_client_auto [OF that]
    by (simp add: connect_ok connect_socket connect_trace)
  show ?thesis
    using merge_autoConnect [of p] new_client_no_websocket [of e p] new_client_manual [of e p]
      auto_part
    by blast
qed

lemma no_overrides_fields:
  "p_autoConnect no_overrides = None"
  "p_autoConnect (no_overrides\<lparr>p_autoConnect := Some False\<rparr>) = Some False"
  by (simp_all add: no_overrides_def)

lemma env0_fields:
  "websocket_defined env0"
  "socket_count env0 = 0"
  "trace env0 = []"
  "\<not> websocket_defined (env0\<lparr>websocket_defined := False\<rparr>)"
  by (simp_all add: env0_def)

theorem new_client_witness:
  "websocket_defined env0 \<and>
   autoConnect (merge_config DEFAULT_CONFIG no_overrides) \<and>
   fst (new_client no_overrides env0) =
     Inr \<lparr> config = merge_config DEFAULT_CONFIG no_overrides, ws = Some 0,
           instrumentedMocha = None, retryTimeout = None \<rparr> \<and>
   socket_count (snd (new_client no_overrides env0)) = 1 \<and>
   \<not> autoConnect (merge_config DEFAULT_CONFIG (no_overrides\<lparr>p_autoConnect := Some False\<rparr>)) \<and>
   snd (new_client (no_overrides\<lparr>p_autoConnect := Some False\<rparr>) env0) = env0 \<and>
   \<not> websocket_defined (env0\<lparr>websocket_defined := False\<rparr>) \<and>
   fst (new_client no_overrides (env0\<lparr>websocket_defined := False\<rparr>)) =
     Inl (JsError ''mocha-remote-client expects a global WebSocket'')"
proof -
  have a: "autoConnect (merge_config DEFAULT_CONFIG no_overrides)"
    by (simp add: merge_autoConnect no_overrides_fields)
  have b: "\<not> autoConnect (merge_config DEFAULT_CONFIG (no_overrides\<lparr>p_autoConnect := Some False\<rparr>))"
    by (simp add: merge_autoConnect no_overrides_fields)
  have w: "websocket_defined env0" and nw: "\<not> websocket_defined (env0\<lparr>websocket_defined := False\<rparr>)"
    by (rule env0_fields)+
  from new_client_connects_unless_told_not_to [of no_overrides env0] a w
  have c: "fst (new_client no_overrides env0) =
     Inr \<lparr> config = merge_config DEFAULT_CONFIG no_overrides, ws = Some (socket_count env0),
           instrumentedMocha = None, retryTimeout = None \<rparr>"
    and d: "socket_count (snd (new_client no_overrides env0)) = Suc (socket_count env0)"
    by blast+
  from new_client_connects_unless_told_not_to [of "no_overrides\<lparr>p_autoConnect := Some False\<rparr>" env0] b w
  have e: "snd (new_client (no_overrides\<lparr>p_autoConnect := Some False\<rparr>) env0) = env0"
    by simp
  from new_client_connects_unless_told_not_to [of no_overrides "env0\<lparr>websocket_defined := False\<rparr>"] nw
  have f: "fst (new_client no_overrides (env0\<lparr>websocket_defined := False\<rparr>)) =
     Inl (JsError ''mocha-remote-client expects a global WebSocket'')"
    by simp
  from a b w nw c d e f show ?thesis by (simp add: env0_fields)
qed

subsection \<open>disconnect\<close>







lemma disconnect_timers:
  "timers (snd (snd (disconnect w))) =
     (case retryTimeout (fst w) of
        Some t \<Rightarrow> filter (\<lambda>p. fst p \<noteq> t) (timers (snd w))
      | None \<Rightarrow> timers (snd w))"
  by (simp add: disconnect_def split_beta Let_def env_fields split: option.splits sum.splits)

lemma disconnect_trace:
  "trace (snd (snd (disconnect w))) =
     trace (snd w) @
     (case retryTimeout (fst w) of Some t \<Rightarrow> [ClearTimeout t] | None \<Rightarrow> []) @
     (case ws (fst w) of
        Some s \<Rightarrow> [RemoveEventListener s ''close'' OnClose, RemoveEventListener s ''error'' OnError,
                   RemoveEventListener s ''message'' OnMessage, WsClose s]
      | None \<Rightarrow> [])"
  by (simp add: disconnect_def split_beta Let_def env_fields split: option.splits sum.splits)

lemma disconnect_sockets:
  "sockets (snd (snd (disconnect w))) =
     (case ws (fst w) of
        Some s \<Rightarrow> (sockets (snd w))(s := (sockets (snd w) s)
           \<lparr>ws_listeners :=
              filter (\<lambda>l. l \<noteq> (''message'', OnMessage))
                (filter (\<lambda>l. l \<noteq> (''error'', OnError))
                   (filter (\<lambda>l. l \<noteq> (''close'', OnClose)) (ws_listeners (sockets (snd w) s)))),
            ws_readyState :=
              (if ws_readyState (sockets (snd w) s) = CLOSED then CLOSED else CLOSING)\<rparr>)
      | None \<Rightarrow> sockets (snd w))"
  by (simp add: disconnect_def split_beta Let_def env_fields split: option.splits sum.splits)

lemma disconnect_frame:
  "timer_seq (snd (snd (disconnect w))) = timer_seq (snd w)"
  "socket_count (snd (snd (disconnect w))) = socket_count (snd w)"
  "mochas (snd (snd (disconnect w))) = mochas (snd w)"
  "mocha_count (snd (snd (disconnect w))) = mocha_count (snd w)"
  "runner_listeners (snd (snd (disconnect w))) = runner_listeners (snd w)"
  "runner_count (snd (snd (disconnect w))) = runner_count (snd w)"
  "websocket_defined (snd (snd (disconnect w))) = websocket_defined (snd w)"
  "transport_kind (snd (snd (disconnect w))) = transport_kind (snd w)"
  by (simp_all add: disconnect_def split_beta Let_def env_fields split: option.splits sum.splits)





lemma disconnect_notifications: "notifications (snd (disconnect w)) = notifications w"
  by (simp add: notifications_def disconnect_trace split: option.splits)

subsection \<open>The bookkeeping of the connection manager\<close>

lemma same_connection_refl [simp]: "same_connection w w"
  by (simp add: same_connection_def)

lemma same_connection_trans:
  "same_connection w'' w' \<Longrightarrow> same_connection w' w \<Longrightarrow> same_connection w'' w"
  by (simp add: same_connection_def)

lemma same_connectionI:
  assumes "ws (fst w') = ws (fst w)" and "retryTimeout (fst w') = retryTimeout (fst w)"
    and "timers (snd w') = timers (snd w)"
    and "\<And>s. ws_listeners (sockets (snd w') s) = ws_listeners (sockets (snd w) s)"
    and "\<And>s. ws_readyState (sockets (snd w') s) = ws_readyState (sockets (snd w) s)"
  shows "same_connection w' w"
  using assms by (simp add: same_connection_def)

lemma consistent_same: "same_connection w' w \<Longrightarrow> consistent w' = consistent w"
  by (simp add: consistent_def same_connection_def only_client_listeners_def)

lemma same_instrument: "same_connection (snd (instrument m w)) w"
  by (rule same_connectionI) (simp_all add: instrument_result instrument_frame)

lemma same_run: "same_connection (snd (run m w)) w"
  by (rule same_connectionI) (simp_all add: run_client run_frame)

lemma same_getMocha: "same_connection (snd (getMocha w)) w"
  by (rule same_connectionI) (simp_all add: getMocha_frame)

lemma same_direct_run: "same_connection (snd (direct_run m w)) w"
  by (rule same_connectionI) (simp_all add: direct_run_frame)

lemma same_onMessage: "same_connection (snd (onMessage data w)) w"
  by (rule same_connectionI) (simp_all add: onMessage_frame)

lemma same_onOpen: "same_connection (onOpen fn s w) w"
  by (rule same_connectionI)
     (simp_all add: onOpen_def split_beta Let_def env_fields split: option.splits)

lemma same_runner_emit: "same_connection (snd (runner_emit r name args w)) w"
proof -
  obtain fs where "snd (runner_emit r name args w) =
     (fst w, case ws (fst w) of Some s \<Rightarrow> sent_frames s fs (snd w) | None \<Rightarrow> snd w)"
    using runner_emit_world [of r name args w] by (elim exE)
  then show ?thesis
    by (cases "ws (fst w)")
       (simp_all add: same_connection_def sent_frames_fields sent_frames_socket)
qed

lemma same_changed_mochas:
  "same_connection (fst w, (snd w)\<lparr>mochas := ms, mocha_count := n\<rparr>) w"
  by (simp add: same_connection_def)

lemma same_call_handler:
  "h \<noteq> OnClose \<Longrightarrow> same_connection (call_handler h s code reason data w) w"
  by (cases h) (simp_all add: same_onMessage same_onOpen onError_def)

lemma same_fold_handlers:
  "\<forall>l \<in> set ls. snd l \<noteq> OnClose \<Longrightarrow>
   same_connection (fold (\<lambda>l w'. call_handler (snd l) s code reason data w') ls w) w"
proof (induction ls arbitrary: w)
  case Nil
  show ?case by simp
next
  case (Cons l ls)
  have "same_connection
          (fold (\<lambda>l w'. call_handler (snd l) s code reason data w') ls
             (call_handler (snd l) s code reason data w))
          (call_handler (snd l) s code reason data w)"
    using Cons by simp
  moreover have "same_connection (call_handler (snd l) s code reason data w) w"
    using Cons.prems by (simp add: same_call_handler)
  ultimately show ?case
    using same_connection_trans by fastforce
qed

lemma client_listener_close:
  "client_listener l \<Longrightarrow> fst l = ''close'' \<Longrightarrow> l = (''close'', OnClose)"
  by (cases "snd l") (auto simp: client_listener_def prod_eq_iff)

lemma same_dispatch:
  assumes "only_client_listeners (snd w)" and "ty \<noteq> ''close''"
  shows "same_connection (dispatch s ty code reason data w) w"
proof -
  have "list_all client_listener (ws_listeners (sockets (snd w) s))"
    using assms(1) by (simp add: only_client_listeners_def)
  then have "\<forall>l \<in> set (filter (\<lambda>l. fst l = ty) (ws_listeners (sockets (snd w) s))).
               snd l \<noteq> OnClose"
    using assms(2) by (auto simp: list_all_iff client_listener_def)
  then show ?thesis
    unfolding dispatch_def by (rule same_fold_handlers)
qed

lemma consistentD:
  assumes "consistent w"
  shows "\<And>p. p \<in> set (timers (snd w)) \<Longrightarrow> retryTimeout (fst w) = Some (fst p)"
    and "ws (fst w) \<noteq> None \<Longrightarrow> timers (snd w) = []"
    and "\<And>s. (''close'', OnClose) \<in> set (ws_listeners (sockets (snd w) s)) \<Longrightarrow>
              ws_readyState (sockets (snd w) s) \<noteq> CLOSED \<Longrightarrow> ws (fst w) = Some s"
    and "only_client_listeners (snd w)"
    and "\<And>s. distinct (ws_listeners (sockets (snd w) s))"
  using assms by (simp_all add: consistent_def)

lemma consistentI:
  assumes "\<And>p. p \<in> set (timers (snd w)) \<Longrightarrow> retryTimeout (fst w) = Some (fst p)"
    and "ws (fst w) \<noteq> None \<Longrightarrow> timers (snd w) = []"
    and "\<And>s. (''close'', OnClose) \<in> set (ws_listeners (sockets (snd w) s)) \<Longrightarrow>
              ws_readyState (sockets (snd w) s) \<noteq> CLOSED \<Longrightarrow> ws (fst w) = Some s"
    and "only_client_listeners (snd w)"
    and "\<And>s. distinct (ws_listeners (sockets (snd w) s))"
  shows "consistent w"
  using assms unfolding consistent_def by blast

text \<open>Cancelling the timer whose handle is stored leaves no timer pending.\<close>

lemma stored_timer_only:
  assumes "consistent w"
  shows "(case retryTimeout (fst w) of
            Some t \<Rightarrow> filter (\<lambda>p. fst p \<noteq> t) (timers (snd w))
          | None \<Rightarrow> timers (snd w)) = []"
proof (cases "retryTimeout (fst w)")
  case None
  have "timers (snd w) = []"
  proof (cases "timers (snd w)")
    case (Cons p ps)
    then show ?thesis using consistentD(1) [OF assms, of p] None by simp
  qed simp
  then show ?thesis using None by simp
next
  case (Some t)
  have "\<forall>p \<in> set (timers (snd w)). fst p = t"
    using consistentD(1) [OF assms] Some by auto
  then show ?thesis using Some by (simp add: filter_empty_conv)
qed

lemma consistent_connect:
  assumes "consistent w"
  shows "consistent (snd (connect fn w))"
proof (cases "ws (fst w)")
  case (Some s)
  then show ?thesis using assms by (simp add: connect_refused)
next
  case None
  note c = connect_ok [OF None, of fn] and k = connect_socket [OF None, of fn]
  have t: "timers (snd (snd (connect fn w))) = []"
    using stored_timer_only [OF assms] by (simp add: c(4))
  show ?thesis
  proof (rule consistentI)
    fix p assume "p \<in> set (timers (snd (snd (connect fn w))))"
    then show "retryTimeout (fst (snd (connect fn w))) = Some (fst p)" by (simp add: t)
  next
    show "timers (snd (snd (connect fn w))) = []" by (rule t)
  next
    fix s
    assume l: "(''close'', OnClose) \<in> set (ws_listeners (sockets (snd (snd (connect fn w))) s))"
      and st: "ws_readyState (sockets (snd (snd (connect fn w))) s) \<noteq> CLOSED"
    show "ws (fst (snd (connect fn w))) = Some s"
    proof (cases "s = socket_count (snd w)")
      case True
      then show ?thesis by (simp add: c(2))
    next
      case False
      then have "ws (fst w) = Some s"
        using l st consistentD(3) [OF assms, of s] by (simp add: k)
      then show ?thesis using None by simp
    qed
  next
    show "only_client_listeners (snd (snd (connect fn w)))"
      using consistentD(4) [OF assms]
      by (simp add: only_client_listeners_def k client_listener_def)
  next
    fix s
    show "distinct (ws_listeners (sockets (snd (snd (connect fn w))) s))"
      using consistentD(5) [OF assms, of s] by (simp add: k)
  qed
qed

lemma consistent_disconnect:
  assumes "consistent w"
  shows "consistent (snd (disconnect w))"
proof -
  have t: "timers (snd (snd (disconnect w))) = []"
    using stored_timer_only [OF assms] by (simp add: disconnect_timers)
  show ?thesis
  proof (rule consistentI)
    fix p assume "p \<in> set (timers (snd (snd (disconnect w))))"
    then show "retryTimeout (fst (snd (disconnect w))) = Some (fst p)" by (simp add: t)
  next
    show "timers (snd (snd (disconnect w))) = []" by (rule t)
  next
    fix s
    assume l: "(''close'', OnClose) \<in> set (ws_listeners (sockets (snd (snd (disconnect w))) s))"
      and st: "ws_readyState (sockets (snd (snd (disconnect w))) s) \<noteq> CLOSED"
    show "ws (fst (snd (disconnect w))) = Some s"
    proof (cases "ws (fst w)")
      case None
      then have "ws (fst w) = Some s"
        using l st consistentD(3) [OF assms, of s] by (simp add: disconnect_sockets)
      then show ?thesis using None by simp
    next
      case (Some s')
      have "s \<noteq> s'" using l Some by (auto simp: disconnect_sockets)
      then have "ws (fst w) = Some s"
        using l st consistentD(3) [OF assms, of s] Some by (simp add: disconnect_sockets)
      then show ?thesis using Some \<open>s \<noteq> s'\<close> by simp
    qed
  next
    show "only_client_listeners (snd (snd (disconnect w)))"
      using consistentD(4) [OF assms]
      by (auto simp: only_client_listeners_def disconnect_sockets list_all_iff
               split: option.splits)
  next
    fix s
    show "distinct (ws_listeners (sockets (snd (snd (disconnect w))) s))"
      using consistentD(5) [OF assms, of s]
      by (simp add: disconnect_sockets split: option.splits)
  qed
qed

lemma consistent_fewer_timers:
  assumes "consistent w"
  shows "consistent (fst w, (snd w)\<lparr>timers := filter P (timers (snd w))\<rparr>)"
  using assms by (auto simp: consistent_def only_client_listeners_def)

lemma consistent_fire_timer:
  assumes "consistent w"
  shows "consistent (snd (fire_timer t w))"
  using consistent_connect [OF consistent_fewer_timers [OF assms]] assms
  by (simp add: fire_timer_def split_beta)

lemma consistent_state:
  assumes "consistent w" and "ws_readyState (sockets (snd w) s) \<noteq> CLOSED"
  shows "consistent (fst w, (snd w)\<lparr>sockets := (sockets (snd w))(s :=
           (sockets (snd w) s)\<lparr>ws_readyState := st\<rparr>)\<rparr>)"
  using assms by (auto simp: consistent_def only_client_listeners_def)

lemma consistent_fire_open:
  assumes "consistent w" and "ws_readyState (sockets (snd w) s) = CONNECTING"
  shows "consistent (fire_open s w)"
proof -
  let ?w1 = "(fst w, (snd w)\<lparr>sockets := (sockets (snd w))(s :=
           (sockets (snd w) s)\<lparr>ws_readyState := OPEN\<rparr>)\<rparr>)"
  have c1: "consistent ?w1"
    using assms by (intro consistent_state) simp_all
  have "same_connection (dispatch s ''open'' 0 [] JUndefined ?w1) ?w1"
    by (rule same_dispatch) (use consistentD(4) [OF c1] in simp_all)
  then have "consistent (dispatch s ''open'' 0 [] JUndefined ?w1)"
    using c1 by (simp add: consistent_same)
  then show ?thesis by (simp add: fire_open_def split_beta)
qed

lemma consistent_fire_message:
  assumes "consistent w"
  shows "consistent (fire_message s data w)"
  using same_dispatch [OF consistentD(4) [OF assms], of "''message''" s 0 "[]" data] assms
  by (simp add: fire_message_def consistent_same)

lemma consistent_fire_error:
  assumes "consistent w"
  shows "consistent (fire_error s w)"
  using same_dispatch [OF consistentD(4) [OF assms], of "''error''" s 0 "[]" JUndefined] assms
  by (simp add: fire_error_def consistent_same)

lemma close_listeners:
  assumes "distinct ls" and "list_all client_listener ls"
  shows "filter (\<lambda>l. fst l = ''close'') ls =
     (if (''close'', OnClose) \<in> set ls then [(''close'', OnClose)] else [])"
  using assms
proof (induction ls)
  case Nil
  show ?case by simp
next
  case (Cons l ls)
  show ?case
  proof (cases "fst l = ''close''")
    case True
    then have l: "l = (''close'', OnClose)"
      using Cons.prems(2) by (simp add: client_listener_close)
    then show ?thesis using Cons by simp
  next
    case False
    then have "l \<noteq> (''close'', OnClose)" by auto
    then show ?thesis using Cons False by simp
  qed
qed

lemma consistent_fire_close:
  assumes "consistent w" and "ws_readyState (sockets (snd w) s) \<noteq> CLOSED"
  shows "consistent (fire_close s code reason w)"
proof -
  let ?w1 = "(fst w, (snd w)\<lparr>sockets := (sockets (snd w))(s :=
           (sockets (snd w) s)\<lparr>ws_readyState := CLOSED\<rparr>)\<rparr>)"
  have c1: "consistent ?w1"
    using assms by (rule consistent_state)
  have f: "filter (\<lambda>l. fst l = ''close'') (ws_listeners (sockets (snd w) s)) =
     (if (''close'', OnClose) \<in> set (ws_listeners (sockets (snd w) s))
      then [(''close'', OnClose)] else [])"
    using consistentD(4,5) [OF assms(1)]
    by (intro close_listeners) (simp_all add: only_client_listeners_def)
  show ?thesis
  proof (cases "(''close'', OnClose) \<in> set (ws_listeners (sockets (snd w) s))")
    case False
    then have "fire_close s code reason w = ?w1"
      by (simp add: fire_close_def dispatch_def split_beta f)
    then show ?thesis using c1 by simp
  next
    case True
    then have e: "fire_close s code reason w = onClose code reason ?w1"
      by (simp add: fire_close_def dispatch_def split_beta f)
    have conn: "ws (fst w) = Some s"
      using consistentD(3) [OF assms(1) True assms(2)] .
    then have t: "timers (snd w) = []"
      using consistentD(2) [OF assms(1)] by simp
    have "consistent (onClose code reason ?w1)"
    proof (rule consistentI)
      fix p assume "p \<in> set (timers (snd (onClose code reason ?w1)))"
      then show "retryTimeout (fst (onClose code reason ?w1)) = Some (fst p)"
        by (simp add: onClose_timers onClose_client t split: if_splits)
    next
      assume "ws (fst (onClose code reason ?w1)) \<noteq> None"
      then show "timers (snd (onClose code reason ?w1)) = []"
        by (simp add: onClose_client split: if_splits)
    next
      fix s'
      assume l: "(''close'', OnClose) \<in> set (ws_listeners (sockets (snd (onClose code reason ?w1)) s'))"
        and st: "ws_readyState (sockets (snd (onClose code reason ?w1)) s') \<noteq> CLOSED"
      have "s' \<noteq> s" using st by (auto simp: onClose_frame)
      then have "ws (fst w) = Some s'"
        using l st consistentD(3) [OF assms(1), of s'] by (simp add: onClose_frame)
      then show "ws (fst (onClose code reason ?w1)) = Some s'"
        using conn \<open>s' \<noteq> s\<close> by simp
    next
      show "only_client_listeners (snd (onClose code reason ?w1))"
        using consistentD(4) [OF c1] by (simp add: only_client_listeners_def onClose_frame)
    next
      fix s'
      show "distinct (ws_listeners (sockets (snd (onClose code reason ?w1)) s'))"
        using consistentD(5) [OF c1, of s'] by (simp add: onClose_frame)
    qed
    then show ?thesis by (simp add: e)
  qed
qed

lemma consistent_constructed:
  assumes "fresh_env e" and "new_client p e = (Inr c, e')"
  shows "consistent (c, e')"
proof -
  let ?c = "\<lparr> config = merge_config DEFAULT_CONFIG p, ws = None, instrumentedMocha = None,
              retryTimeout = None \<rparr>"
  have c0: "consistent (?c, e)"
    using assms(1) by (simp add: consistent_def fresh_env_def only_client_listeners_def)
  have w: "websocket_defined e"
    using assms(2) new_client_no_websocket [of e p] by auto
  show ?thesis
  proof (cases "autoConnect (merge_config DEFAULT_CONFIG p)")
    case False
    then show ?thesis using new_client_manual [OF w False] assms(2) c0 by simp
  next
    case True
    have "fst (snd (connect None (?c, e))) = ?c\<lparr>ws := Some (socket_count e)\<rparr>"
      using connect_ok(2) [of "(?c, e)" None] by simp
    then have "(c, e') = snd (connect None (?c, e))"
      using new_client_auto [OF w True] assms(2) by (simp add: prod_eq_iff)
    then show ?thesis using consistent_connect [OF c0, of None] by simp
  qed
qed

lemma reachable_consistent: "reachable w \<Longrightarrow> consistent w"
proof (induction rule: reachable.induct)
  case (constructed e p c e')
  then show ?case by (rule consistent_constructed)
next
  case (called_connect w fn)
  then show ?case by (simp add: consistent_connect)
next
  case (called_disconnect w)
  then show ?case by (simp add: consistent_disconnect)
next
  case (called_instrument w m)
  then show ?case by (simp add: consistent_same [OF same_instrument])
next
  case (called_run w m)
  then show ?case by (simp add: consistent_same [OF same_run])
next
  case (called_getMocha w)
  then show ?case by (simp add: consistent_same [OF same_getMocha])
next
  case (called_direct_run w m)
  then show ?case by (simp add: consistent_same [OF same_direct_run])
next
  case (changed_mochas w ms n)
  then show ?case by (simp add: consistent_same [OF same_changed_mochas])
next
  case (emitted w r name args)
  then show ?case by (simp add: consistent_same [OF same_runner_emit])
next
  case (opened w s)
  then show ?case by (simp add: consistent_fire_open)
next
  case (received w s data)
  then show ?case by (simp add: consistent_fire_message)
next
  case (failed w s)
  then show ?case by (simp add: consistent_fire_error)
next
  case (closed w s code reason)
  then show ?case by (simp add: consistent_fire_close)
next
  case (fired w t)
  then show ?case by (simp add: consistent_fire_timer)
qed


lemma only_client_listeners_close:
  assumes "only_client_listeners (snd w)"
  shows "only_onClose_listens w s"
proof -
  have "list_all client_listener (ws_listeners (sockets (snd w) s))"
    using assms by (simp add: only_client_listeners_def)
  then have k: "\<forall>l \<in> set (ws_listeners (sockets (snd w) s)). client_listener l"
    by (simp add: list_all_iff)
  have "snd l = OnClose" if "client_listener l" and "fst l = ''close''" for l
    using that by (cases "snd l") (simp_all add: client_listener_def)
  then show ?thesis
    using k by (simp add: only_onClose_listens_def)
qed

lemma reachable_only_onClose_listens: "reachable w \<Longrightarrow> only_onClose_listens w s"
  by (rule only_client_listeners_close) (rule consistentD(4) [OF reachable_consistent])

subsection \<open>Disconnecting twice\<close>















subsection \<open>Deliberate disconnects and transport-driven closes\<close>

lemma disconnect_scheduled: "scheduled (snd (disconnect w)) = scheduled w"
  by (simp add: scheduled_def disconnect_trace split: option.splits)

lemma disconnect_timers_subset: "set (timers (snd (snd (disconnect w)))) \<subseteq> set (timers (snd w))"
  by (auto simp: disconnect_timers split: option.splits)

lemma disconnect_no_close_listener:
  assumes "ws (fst w) = Some s" and "only_onClose_listens w s"
  shows "filter (\<lambda>l. fst l = ''close'') (ws_listeners (sockets (snd (snd (disconnect w))) s)) = []"
proof -
  have "\<forall>l \<in> set (ws_listeners (sockets (snd w) s)). fst l = ''close'' \<longrightarrow> l = (''close'', OnClose)"
    using assms(2) by (auto simp: only_onClose_listens_def prod_eq_iff)
  then show ?thesis
    using assms(1) by (auto simp: disconnect_sockets filter_empty_conv)
qed

lemma fire_close_after_disconnect:
  assumes "ws (fst w) = Some s" and "only_onClose_listens w s"
  shows "fire_close s code reason (snd (disconnect w)) =
     (fst (snd (disconnect w)),
      (snd (snd (disconnect w)))\<lparr>sockets := (sockets (snd (snd (disconnect w))))(s :=
         (sockets (snd (snd (disconnect w))) s)\<lparr>ws_readyState := CLOSED\<rparr>)\<rparr>)"
  using disconnect_no_close_listener [OF assms]
  by (simp add: fire_close_def dispatch_def split_beta)

lemma fire_close_connected:
  assumes "ws_listeners (sockets (snd w) s) =
     [(''close'', OnClose), (''error'', OnError), (''message'', OnMessage), (''open'', OnOpen fn)]"
  shows "fire_close s code reason w =
     onClose code reason
       (fst w, (snd w)\<lparr>sockets := (sockets (snd w))(s :=
          (sockets (snd w) s)\<lparr>ws_readyState := CLOSED\<rparr>)\<rparr>)"
  using assms by (simp add: fire_close_def dispatch_def split_beta)

lemma fire_message_connected:
  assumes "ws_listeners (sockets (snd w) s) =
     [(''close'', OnClose), (''error'', OnError), (''message'', OnMessage), (''open'', OnOpen fn)]"
  shows "fire_message s data w = snd (onMessage data w)"
  using assms by (simp add: fire_message_def dispatch_def)

lemma fire_error_connected:
  assumes "ws_listeners (sockets (snd w) s) =
     [(''close'', OnClose), (''error'', OnError), (''message'', OnMessage), (''open'', OnOpen fn)]"
  shows "fire_error s w = w"
  using assms by (simp add: fire_error_def dispatch_def onError_def)

lemma send_trace:
  "trace (snd (snd (send eventName args w))) =
     trace (snd w) @
     (case ws (fst w) of
        Some s \<Rightarrow> if ws_readyState (sockets (snd w) s) = OPEN
                  then [WsSend s eventName (prepareArgs args)] else []
      | None \<Rightarrow> [])"
  by (simp add: send_def split_beta Let_def env_fields split: option.splits)

lemma onOpen_trace:
  "trace (snd (onOpen fn s w)) =
     trace (snd w) @ (if onConnected (config (fst w)) then [NotifyConnected s] else []) @
     (case fn of Some f \<Rightarrow> [NotifyFn f] | None \<Rightarrow> [])"
  by (simp add: onOpen_def split_beta Let_def env_fields split: option.splits)

lemma connect_trace_any:
  "trace (snd (snd (connect fn w))) =
     trace (snd w) @
     (if ws (fst w) = None then
        (case retryTimeout (fst w) of Some t \<Rightarrow> [ClearTimeout t] | None \<Rightarrow> []) @
        [NewWebSocket (socket_count (snd w)) (url (config (fst w)))
           (''mocha-remote-'' @ render_id (id_cfg (config (fst w)))),
         AddEventListener (socket_count (snd w)) ''close'' OnClose,
         AddEventListener (socket_count (snd w)) ''error'' OnError,
         AddEventListener (socket_count (snd w)) ''message'' OnMessage,
         AddEventListener (socket_count (snd w)) ''open'' (OnOpen fn)]
      else [])"
  by (cases "ws (fst w)") (simp_all add: connect_trace connect_refused)

lemma disconnected_notes_connect:
  "disconnected_notes (snd (connect fn w)) = disconnected_notes w"
  by (simp add: disconnected_notes_def connect_trace_any split: option.splits)

lemma disconnected_notes_disconnect:
  "disconnected_notes (snd (disconnect w)) = disconnected_notes w"
  by (simp add: disconnected_notes_def disconnect_trace split: option.splits)

lemma disconnected_notes_getMocha:
  "disconnected_notes (snd (getMocha w)) = disconnected_notes w"
proof -
  obtain ns where "trace (snd (snd (getMocha w))) = trace (snd w) @ ns"
    and "filter is_NotifyDisconnected ns = []"
    using getMocha_trace [of w] by (elim exE conjE)
  then show ?thesis by (simp add: disconnected_notes_def)
qed

lemma disconnected_notes_instrument:
  "disconnected_notes (snd (instrument m w)) = disconnected_notes w"
  by (simp add: disconnected_notes_def instrument_result)

lemma disconnected_notes_send:
  "disconnected_notes (snd (send eventName args w)) = disconnected_notes w"
  by (simp add: disconnected_notes_def send_trace split: option.splits)

lemma disconnected_notes_onOpen:
  "disconnected_notes (onOpen fn s w) = disconnected_notes w"
  by (simp add: disconnected_notes_def onOpen_trace split: option.splits)

lemma disconnected_notes_fire_timer:
  "disconnected_notes (snd (fire_timer t w)) = disconnected_notes w"
proof -
  have "disconnected_notes (fst w, (snd w)\<lparr>timers := ts\<rparr>) = disconnected_notes w" for ts
    by (simp add: disconnected_notes_def)
  then show ?thesis
    by (simp add: fire_timer_def split_beta disconnected_notes_connect)
qed

lemma disconnected_notes_onClose:
  "disconnected_notes (onClose code reason w) =
     disconnected_notes w @
     (if onDisconnected (config (fst w)) then [NotifyDisconnected code reason] else [])"
  by (simp add: disconnected_notes_def onClose_trace)

text \<open>
  Claim C10. \<open>disconnect\<close>, whether it returns or \<open>close()\<close> throws, makes no
  notification, \<open>onDisconnected\<close> included, schedules no timer and leaves no
  timer pending that was not pending before.
  It removes the close listener before it closes the socket, so the close event
  that the transport fires on that socket afterwards reaches no handler: the
  socket is closed and nothing else changes, provided every close listener on
  the socket was the client's \<open>onClose\<close>, as \<open>connect\<close> leaves it and every
  method and handler keeps it (\<open>only_client_listeners\<close> above). On a socket
  that still carries the listeners of \<open>connect\<close>, a close event from the
  transport runs \<open>onClose\<close>, which calls \<open>onDisconnected\<close> (if configured)
  with the code and the reason, after the reconnect has been scheduled. No
  other method or handler of the client calls \<open>onDisconnected\<close>.
\<close>

theorem disconnect_is_silent:
  "notifications (snd (disconnect w)) = notifications w \<and>
   scheduled (snd (disconnect w)) = scheduled w \<and>
   set (timers (snd (snd (disconnect w)))) \<subseteq> set (timers (snd w)) \<and>
   (\<forall>s. ws (fst w) = Some s \<and> only_onClose_listens w s \<longrightarrow>
      fire_close s code reason (snd (disconnect w)) =
        (fst (snd (disconnect w)),
         (snd (snd (disconnect w)))\<lparr>sockets := (sockets (snd (snd (disconnect w))))(s :=
            (sockets (snd (snd (disconnect w))) s)\<lparr>ws_readyState := CLOSED\<rparr>)\<rparr>)) \<and>
   (\<forall>s f. ws_listeners (sockets (snd w) s) =
            [(''close'', OnClose), (''error'', OnError), (''message'', OnMessage),
             (''open'', OnOpen f)] \<longrightarrow>
      fire_close s code reason w =
        onClose code reason
          (fst w, (snd w)\<lparr>sockets := (sockets (snd w))(s :=
             (sockets (snd w) s)\<lparr>ws_readyState := CLOSED\<rparr>)\<rparr>)) \<and>
   trace (snd (onClose code reason w)) =
     trace (snd w) @
     (if code \<noteq> 1000 \<and> autoRetry (config (fst w))
      then [SetTimeout (timer_seq (snd w)) (retryDelay (config (fst w)))] else []) @
     (if onDisconnected (config (fst w)) then [NotifyDisconnected code reason] else []) \<and>
   disconnected_notes (onClose code reason w) =
     disconnected_notes w @
     (if onDisconnected (config (fst w)) then [NotifyDisconnected code reason] else []) \<and>
   disconnected_notes (snd (disconnect w)) = disconnected_notes w \<and>
   disconnected_notes (snd (connect fn w)) = disconnected_notes w \<and>
   disconnected_notes (snd (send eventName args w)) = disconnected_notes w \<and>
   disconnected_notes (snd (instrument m w)) = disconnected_notes w \<and>
   disconnected_notes (snd (run m w)) = disconnected_notes w \<and>
   disconnected_notes (snd (direct_run m w)) = disconnected_notes w \<and>
   disconnected_notes (snd (getMocha w)) = disconnected_notes w \<and>
   disconnected_notes (snd (onMessage data w)) = disconnected_notes w \<and>
   disconnected_notes (onOpen fn s' w) = disconnected_notes w \<and>
   disconnected_notes (onError w) = disconnected_notes w \<and>
   disconnected_notes (snd (fire_timer t w)) = disconnected_notes w"
proof -
  have a: "\<forall>s. ws (fst w) = Some s \<and> only_onClose_listens w s \<longrightarrow>
      fire_close s code reason (snd (disconnect w)) =
        (fst (snd (disconnect w)),
         (snd (snd (disconnect w)))\<lparr>sockets := (sockets (snd (snd (disconnect w))))(s :=
            (sockets (snd (snd (disconnect w))) s)\<lparr>ws_readyState := CLOSED\<rparr>)\<rparr>)"
    using fire_close_after_disconnect [of w] by blast
  have b: "\<forall>s f. ws_listeners (sockets (snd w) s) =
            [(''close'', OnClose), (''error'', OnError), (''message'', OnMessage),
             (''open'', OnOpen f)] \<longrightarrow>
      fire_close s code reason w =
        onClose code reason
          (fst w, (snd w)\<lparr>sockets := (sockets (snd w))(s :=
             (sockets (snd w) s)\<lparr>ws_readyState := CLOSED\<rparr>)\<rparr>)"
    using fire_close_connected [of w] by blast
  have c: "disconnected_notes (onError w) = disconnected_notes w"
    by (simp add: onError_def)
  show ?thesis
    using a b c
    by (simp only: disconnect_notifications disconnect_scheduled disconnect_timers_subset
          onClose_trace disconnected_notes_onClose disconnected_notes_disconnect
          disconnected_notes_connect disconnected_notes_send disconnected_notes_instrument
          run_disconnected_notes direct_run_disconnected_notes disconnected_notes_getMocha
          onMessage_disconnected_notes disconnected_notes_onOpen disconnected_notes_fire_timer
          simp_thms)
qed

lemma connected_world_more:
  "only_onClose_listens connected_world 0"
  "trace (snd connected_world) =
     [NewWebSocket 0 ''ws://localhost:8090'' ''mocha-remote-default'',
      AddEventListener 0 ''close'' OnClose, AddEventListener 0 ''error'' OnError,
      AddEventListener 0 ''message'' OnMessage, AddEventListener 0 ''open'' (OnOpen None)]"
  by (simp_all add: only_onClose_listens_def connected_world_fields)
     (simp add: connected_world_def connect_trace example_world_fields example_config_fields
        render_id_def)

theorem disconnect_is_silent_witness:
  "ws (fst connected_world) = Some 0 \<and>
   only_onClose_listens connected_world 0 \<and>
   trace (snd (fire_close 0 1006 ''gone'' (snd (disconnect connected_world)))) =
     trace (snd connected_world) @
     [RemoveEventListener 0 ''close'' OnClose, RemoveEventListener 0 ''error'' OnError,
      RemoveEventListener 0 ''message'' OnMessage, WsClose 0] \<and>
   timers (snd (fire_close 0 1006 ''gone'' (snd (disconnect connected_world)))) = [] \<and>
   trace (snd (fire_close 0 1006 ''gone'' connected_world)) =
     trace (snd connected_world) @ [SetTimeout 0 500, NotifyDisconnected 1006 ''gone''] \<and>
   timers (snd (fire_close 0 1006 ''gone'' connected_world)) = [(0, 500)]"
proof -
  have s: "ws (fst connected_world) = Some 0"
    by (simp add: connected_world_fields)
  have l: "only_onClose_listens connected_world 0"
    by (rule connected_world_more)
  have ls: "ws_listeners (sockets (snd connected_world) 0) =
     [(''close'', OnClose), (''error'', OnError), (''message'', OnMessage), (''open'', OnOpen None)]"
    by (simp add: connected_world_fields)
  note inst = disconnect_is_silent [of connected_world 1006 "''gone''"]
  from inst s l
  have a: "fire_close 0 1006 ''gone'' (snd (disconnect connected_world)) =
        (fst (snd (disconnect connected_world)),
         (snd (snd (disconnect connected_world)))\<lparr>sockets := (sockets (snd (snd (disconnect connected_world))))(0 :=
            (sockets (snd (snd (disconnect connected_world))) 0)\<lparr>ws_readyState := CLOSED\<rparr>)\<rparr>)"
    by blast
  from inst ls
  have b: "fire_close 0 1006 ''gone'' connected_world =
        onClose 1006 ''gone''
          (fst connected_world, (snd connected_world)\<lparr>sockets := (sockets (snd connected_world))(0 :=
             (sockets (snd connected_world) 0)\<lparr>ws_readyState := CLOSED\<rparr>)\<rparr>)"
    by blast
  have c: "trace (snd (fire_close 0 1006 ''gone'' (snd (disconnect connected_world)))) =
     trace (snd connected_world) @
     [RemoveEventListener 0 ''close'' OnClose, RemoveEventListener 0 ''error'' OnError,
      RemoveEventListener 0 ''message'' OnMessage, WsClose 0]"
    by (simp add: a disconnect_trace connected_world_fields)
  have d: "timers (snd (fire_close 0 1006 ''gone'' (snd (disconnect connected_world)))) = []"
    by (simp add: a disconnect_timers connected_world_fields)
  have e: "trace (snd (fire_close 0 1006 ''gone'' connected_world)) =
     trace (snd connected_world) @ [SetTimeout 0 500, NotifyDisconnected 1006 ''gone'']"
    by (simp add: b onClose_trace connected_world_fields example_config_fields)
  have f: "timers (snd (fire_close 0 1006 ''gone'' connected_world)) = [(0, 500)]"
    by (simp add: b onClose_timers connected_world_fields example_config_fields)
  from s l c d e f show ?thesis by simp
qed

end
